theory Spec2Isabelle
  imports Main "HOL-Library.Sublist" "HOL-Library.AList" "HOL-Library.Word"
    "HOL-Library.Multiset"
begin

section \<open>Python values handled by \<open>FastApiHandler\<close>\<close>

text \<open>
  The handler of \<^verbatim>\<open>app/fastapi_handler_regression.py\<close> receives decoded JSON. A value
  is \<^verbatim>\<open>None\<close>, a \<^verbatim>\<open>bool\<close>, an \<^verbatim>\<open>int\<close>, a \<^verbatim>\<open>float\<close>, a \<^verbatim>\<open>str\<close>, a \<^verbatim>\<open>list\<close> or a
  \<^verbatim>\<open>dict\<close> with string keys.

  A Python string is a sequence of code points, lone surrogates included; \<open>lit s\<close> is the
  string of the source literal \<open>s\<close>. A dict is an association list in insertion order,
  which is the iteration order of a Python dict; a well-formed dict has distinct keys, and
  a lookup reads the first entry of a key.

  The handler performs no arithmetic on floats: a float is carried as its 64-bit pattern.
\<close>

type_synonym pystr = "nat list"

abbreviation lit :: "string \<Rightarrow> pystr" where
  "lit s \<equiv> map of_char s"

datatype pyfloat = Float64 "64 word"

datatype pyval =
    PNone
  | PBool bool
  | PInt int
  | PFloat pyfloat
  | PStr pystr
  | PList "pyval list"
  | PDict "(pystr \<times> pyval) list"

datatype pytype = NoneType | TBool | TInt | TFloat | TStr | TList | TDict

fun type_of :: "pyval \<Rightarrow> pytype" where
  "type_of PNone = NoneType"
| "type_of (PBool b) = TBool"
| "type_of (PInt n) = TInt"
| "type_of (PFloat x) = TFloat"
| "type_of (PStr s) = TStr"
| "type_of (PList xs) = TList"
| "type_of (PDict d) = TDict"

text \<open>
  \<^verbatim>\<open>isinstance(v, t)\<close> for the two classes the handler tests, \<^verbatim>\<open>str\<close> and \<^verbatim>\<open>dict\<close>
  (neither has a subclass among the value types above).
\<close>

definition isinstance :: "pyval \<Rightarrow> pytype \<Rightarrow> bool" where
  "isinstance v t = (type_of v = t)"

subsection \<open>Exceptions\<close>

text \<open>
  Every exception the handler's code can raise on these values is a subclass of
  \<^verbatim>\<open>Exception\<close>. An exception is kept as a structured value: the failing operation and
  the type of its operand for a \<^verbatim>\<open>TypeError\<close>, the type and the attribute for an
  \<^verbatim>\<open>AttributeError\<close>, the key for a \<^verbatim>\<open>KeyError\<close>. \<^verbatim>\<open>ValueError\<close>, \<^verbatim>\<open>RecursionError\<close> and
  \<^verbatim>\<open>UnicodeEncodeError\<close> are what printing a value can raise. \<open>Raised msg\<close> is an
  exception raised inside the model's \<^verbatim>\<open>predict\<close> whose text is \<open>msg\<close>.
\<close>

datatype pyop = Contains | Subscript | Iterate

datatype pyexn =
    TypeError pyop pytype
  | AttributeError pytype string
  | KeyError pystr
  | IndexError
  | ValueError
  | RecursionError
  | UnicodeEncodeError
  | Raised string

text \<open>
  The text of an error response: a literal of the source, or \<^verbatim>\<open>str(e)\<close> of a caught
  exception \<open>e\<close>, kept symbolic (the wording of the interpreter's messages is not part of
  the repository).
\<close>

datatype message = Text string | Str pyexn

subsection \<open>Operations of the interpreter used by the handler\<close>

text \<open>\<^verbatim>\<open>key in x\<close> for a string \<open>key\<close>.\<close>

fun py_contains :: "pystr \<Rightarrow> pyval \<Rightarrow> pyexn + bool" where
  "py_contains k (PDict d) = Inr (k \<in> set (map fst d))"
| "py_contains k (PList xs) = Inr (PStr k \<in> set xs)"
| "py_contains k (PStr s) = Inr (sublist k s)"
| "py_contains k v = Inl (TypeError Contains (type_of v))"

text \<open>\<^verbatim>\<open>x[key]\<close> for a string \<open>key\<close>.\<close>

fun py_getitem :: "pyval \<Rightarrow> pystr \<Rightarrow> pyexn + pyval" where
  "py_getitem (PDict d) k = (case map_of d k of None \<Rightarrow> Inl (KeyError k) | Some v \<Rightarrow> Inr v)"
| "py_getitem v k = Inl (TypeError Subscript (type_of v))"

text \<open>\<^verbatim>\<open>for param in x\<close>: the elements \<open>x\<close> yields.\<close>

fun py_iter :: "pyval \<Rightarrow> pyexn + pyval list" where
  "py_iter (PDict d) = Inr (map (\<lambda>kv. PStr (fst kv)) d)"
| "py_iter (PList xs) = Inr xs"
| "py_iter (PStr s) = Inr (map (\<lambda>c. PStr [c]) s)"
| "py_iter v = Inl (TypeError Iterate (type_of v))"

text \<open>\<^verbatim>\<open>list(x.values())\<close>.\<close>

fun py_values :: "pyval \<Rightarrow> pyexn + pyval list" where
  "py_values (PDict d) = Inr (map snd d)"
| "py_values v = Inl (AttributeError (type_of v) ''values'')"

text \<open>\<^verbatim>\<open>d[k] = v\<close> on a dict: an existing key keeps its place, a new key goes last.\<close>

definition dict_set :: "(pystr \<times> pyval) list \<Rightarrow> pystr \<Rightarrow> pyval \<Rightarrow> (pystr \<times> pyval) list" where
  "dict_set d k v = AList.update k v d"

text \<open>\<^verbatim>\<open>d.update(extra)\<close>: the entries of \<open>extra\<close> assigned in order.\<close>

fun dict_update :: "(pystr \<times> pyval) list \<Rightarrow> (pystr \<times> pyval) list \<Rightarrow> (pystr \<times> pyval) list" where
  "dict_update d [] = d"
| "dict_update d ((k, v) # extra) = dict_update (dict_set d k v) extra"

subsection \<open>The debug prints\<close>

text \<open>
  The handler logs with \<^verbatim>\<open>print(f"...{v}")\<close>. Formatting the value \<open>v\<close> and writing the
  text to the standard output can raise: a \<^verbatim>\<open>RecursionError\<close> on a deeply nested value, a
  \<^verbatim>\<open>ValueError\<close> on an integer beyond the interpreter's digit limit, a
  \<^verbatim>\<open>UnicodeEncodeError\<close> on text the output cannot encode. What raises depends on the
  interpreter and on its standard output, which are outside the repository. They are a
  parameter, the printer: for each value, the exception that printing it raises, if any.
  A value interpolated on its own is printed by \<^verbatim>\<open>str\<close> (a string goes out as it is),
  a value inside a list or a dict by \<^verbatim>\<open>repr\<close>; a printed list is the value \<open>PList\<close> of
  its elements.

  The prints that format a value of the request are kept, each at its place in the
  source: lines 53, 64, 71, 97, 108, 146 and 147. The other prints format a constant, a
  type, a boolean, the model's float, the handler's own lists of names (lines 98 and 106:
  the constructor printed these names at lines 27 and 38) or the text of a caught
  exception (line 158, in the \<^verbatim>\<open>except\<close> clause); they are taken not to raise.
\<close>

type_synonym printer = "pyval \<Rightarrow> pyexn option"

definition py_print :: "printer \<Rightarrow> pyval \<Rightarrow> pyexn + unit" where
  "py_print pr v = (case pr v of Some e \<Rightarrow> Inl e | None \<Rightarrow> Inr ())"

section \<open>The model and the handler\<close>

text \<open>
  The loaded \<^verbatim>\<open>CatBoostRegressor\<close> is outside the repository. It is a parameter: the
  attribute \<^verbatim>\<open>feature_names_\<close> (the field \<open>model_feature_names\<close>; \<open>None\<close> when the
  attribute is missing or is \<^verbatim>\<open>None\<close>) and the method \<^verbatim>\<open>predict\<close>, which takes a batch
  of rows and either raises or returns a float array with one score for each row it
  scored.
\<close>

record model =
  model_feature_names :: "pystr list option"
  predict :: "pyval list list \<Rightarrow> pyexn + pyfloat list"

record handler =
  model :: model
  feature_names :: "pystr list option"
  required_model_params :: "pystr list"

text \<open>The truth value of \<^verbatim>\<open>self.feature_names\<close>: \<^verbatim>\<open>None\<close> and the empty list are false.\<close>

fun truthy :: "pystr list option \<Rightarrow> bool" where
  "truthy None = False"
| "truthy (Some []) = False"
| "truthy (Some (x # xs)) = True"

definition default_required_model_params :: "pystr list" where
  "default_required_model_params =
     [lit ''gender'', lit ''Type'', lit ''PaperlessBilling'', lit ''PaymentMethod'',
      lit ''MonthlyCharges'', lit ''TotalCharges'']"

text \<open>
  \<^verbatim>\<open>FastApiHandler.__init__\<close>, after \<^verbatim>\<open>load_credit_model\<close> has returned the model \<open>m\<close>
  and the constructor's own prints have succeeded (a failed load or print raises out of
  the constructor and no handler exists).
\<close>

definition init :: "model \<Rightarrow> handler" where
  "init m =
     (let fn = model_feature_names m in
      if truthy fn
      then \<lparr>model = m, feature_names = fn, required_model_params = the fn\<rparr>
      else \<lparr>model = m, feature_names = fn,
            required_model_params = default_required_model_params\<rparr>)"

subsection \<open>\<^verbatim>\<open>credit_rating_predict\<close>\<close>

text \<open>\<^verbatim>\<open>[model_params[feature] for feature in names]\<close>; the first failing lookup raises.\<close>

fun lookup_each :: "pyval \<Rightarrow> pystr list \<Rightarrow> pyexn + pyval list" where
  "lookup_each model_params [] = Inr []"
| "lookup_each model_params (feature # rest) =
     (case py_getitem model_params feature of
        Inl e \<Rightarrow> Inl e
      | Inr v \<Rightarrow>
          (case lookup_each model_params rest of
             Inl e \<Rightarrow> Inl e
           | Inr vs \<Rightarrow> Inr (v # vs)))"

text \<open>
  The value assigned to the local \<^verbatim>\<open>input_data\<close> of \<^verbatim>\<open>credit_rating_predict\<close> (lines
  56 to 62 without their two prints of constants).
\<close>

definition input_data :: "handler \<Rightarrow> pyval \<Rightarrow> pyexn + pyval list" where
  "input_data h model_params =
     (if truthy (feature_names h)
      then lookup_each model_params (the (feature_names h))
      else py_values model_params)"

text \<open>\<^verbatim>\<open>a[0]\<close> on the array \<^verbatim>\<open>predict\<close> returned.\<close>

fun first_output :: "pyfloat list \<Rightarrow> pyexn + pyfloat" where
  "first_output [] = Inl IndexError"
| "first_output (y # ys) = Inr y"

text \<open>
  Line 53 prints \<^verbatim>\<open>model_params\<close>, line 64 prints the list \<^verbatim>\<open>input_data\<close>, then the model
  is called on the batch of that one row.
\<close>

definition credit_rating_predict :: "printer \<Rightarrow> handler \<Rightarrow> pyval \<Rightarrow> pyexn + pyfloat" where
  "credit_rating_predict pr h model_params =
     (case py_print pr model_params of
        Inl e \<Rightarrow> Inl e
      | Inr u \<Rightarrow>
          (case input_data h model_params of
             Inl e \<Rightarrow> Inl e
           | Inr row \<Rightarrow>
               (case py_print pr (PList row) of
                  Inl e \<Rightarrow> Inl e
                | Inr u' \<Rightarrow>
                    (case predict (model h) [row] of
                       Inl e \<Rightarrow> Inl e
                     | Inr out \<Rightarrow> first_output out))))"

subsection \<open>\<^verbatim>\<open>check_required_query_params\<close>\<close>

text \<open>
  Line 71 prints \<^verbatim>\<open>query_params\<close> before any test. \<^verbatim>\<open>self.param_types\<close> is the
  constant table \<^verbatim>\<open>{"client_id": str, "model_params": dict}\<close>. Python's \<^verbatim>\<open>or\<close> does not
  evaluate its second operand when the first is true.
\<close>

definition check_required_query_params :: "printer \<Rightarrow> handler \<Rightarrow> pyval \<Rightarrow> pyexn + bool" where
  "check_required_query_params pr h query_params =
     (case py_print pr query_params of
        Inl e \<Rightarrow> Inl e
      | Inr u \<Rightarrow>
     (case py_contains (lit ''client_id'') query_params of
        Inl e \<Rightarrow> Inl e
      | Inr has_client_id \<Rightarrow>
          (case (if \<not> has_client_id then Inr True
                 else (case py_contains (lit ''model_params'') query_params of
                         Inl e \<Rightarrow> Inl e
                       | Inr has_model_params \<Rightarrow> Inr (\<not> has_model_params))) of
             Inl e \<Rightarrow> Inl e
           | Inr missing \<Rightarrow>
               if missing then Inr False
               else
                 (case py_getitem query_params (lit ''client_id'') of
                    Inl e \<Rightarrow> Inl e
                  | Inr client_id \<Rightarrow>
                      if \<not> isinstance client_id TStr then Inr False
                      else
                        (case py_getitem query_params (lit ''model_params'') of
                           Inl e \<Rightarrow> Inl e
                         | Inr model_params \<Rightarrow>
                             if \<not> isinstance model_params TDict then Inr False
                             else Inr True)))))"

subsection \<open>\<^verbatim>\<open>check_required_model_params\<close>\<close>

text \<open>\<^verbatim>\<open>[param for param in required if param not in model_params]\<close>.\<close>

fun missing_params :: "pyval \<Rightarrow> pystr list \<Rightarrow> pyexn + pystr list" where
  "missing_params model_params [] = Inr []"
| "missing_params model_params (param # rest) =
     (case py_contains param model_params of
        Inl e \<Rightarrow> Inl e
      | Inr present \<Rightarrow>
          (case missing_params model_params rest of
             Inl e \<Rightarrow> Inl e
           | Inr ms \<Rightarrow> Inr (if \<not> present then param # ms else ms)))"

text \<open>
  \<^verbatim>\<open>[param for param in model_params if param not in required]\<close>: a value is in the list
  of required names when it is a string equal to one of them.
\<close>

definition extra_params :: "pyval \<Rightarrow> pystr list \<Rightarrow> pyexn + pyval list" where
  "extra_params model_params required =
     (case py_iter model_params of
        Inl e \<Rightarrow> Inl e
      | Inr params \<Rightarrow> Inr (filter (\<lambda>param. param \<notin> set (map PStr required)) params))"

text \<open>\<^verbatim>\<open>all(param in model_params for param in required)\<close>; stops at the first false.\<close>

fun all_present :: "pyval \<Rightarrow> pystr list \<Rightarrow> pyexn + bool" where
  "all_present model_params [] = Inr True"
| "all_present model_params (param # rest) =
     (case py_contains param model_params of
        Inl e \<Rightarrow> Inl e
      | Inr present \<Rightarrow> if present then all_present model_params rest else Inr False)"

text \<open>
  Line 97 prints \<^verbatim>\<open>model_params\<close> before anything is computed. The two lists are only
  printed; computing them can raise before \<^verbatim>\<open>result\<close> is computed. Line 108 prints the
  list \<^verbatim>\<open>extra_params\<close> when it is not empty.
\<close>

definition check_required_model_params :: "printer \<Rightarrow> handler \<Rightarrow> pyval \<Rightarrow> pyexn + bool" where
  "check_required_model_params pr h model_params =
     (case py_print pr model_params of
        Inl e \<Rightarrow> Inl e
      | Inr u \<Rightarrow>
     (case missing_params model_params (required_model_params h) of
        Inl e \<Rightarrow> Inl e
      | Inr missing \<Rightarrow>
          (case extra_params model_params (required_model_params h) of
             Inl e \<Rightarrow> Inl e
           | Inr extra \<Rightarrow>
               (case (if extra \<noteq> [] then py_print pr (PList extra) else Inr ()) of
                  Inl e \<Rightarrow> Inl e
                | Inr u' \<Rightarrow> all_present model_params (required_model_params h)))))"

subsection \<open>\<^verbatim>\<open>validate_params\<close>\<close>

definition validate_params :: "printer \<Rightarrow> handler \<Rightarrow> pyval \<Rightarrow> pyexn + bool" where
  "validate_params pr h params =
     (case check_required_query_params pr h params of
        Inl e \<Rightarrow> Inl e
      | Inr query_check \<Rightarrow>
          if \<not> query_check then Inr False
          else
            (case py_getitem params (lit ''model_params'') of
               Inl e \<Rightarrow> Inl e
             | Inr model_params \<Rightarrow>
                 (case check_required_model_params pr h model_params of
                    Inl e \<Rightarrow> Inl e
                  | Inr model_check \<Rightarrow>
                      if \<not> model_check then Inr False else Inr True)))"

subsection \<open>\<^verbatim>\<open>handle\<close>\<close>

text \<open>
  The two shapes of a response: \<^verbatim>\<open>{"client_id": .., "predicted_credit_rating": ..}\<close> and
  \<^verbatim>\<open>{"Error": ..}\<close>.
\<close>

datatype response =
    PredictionResult (client_id: pyval) (predicted_credit_rating: pyfloat)
  | ErrorResult (Error: message)

text \<open>\<^verbatim>\<open>float(x)\<close> of an entry of the model's float array is the entry.\<close>

definition py_float :: "pyfloat \<Rightarrow> pyfloat" where
  "py_float x = x"

text \<open>
  The body of the \<^verbatim>\<open>try\<close> block of \<^verbatim>\<open>handle\<close>. Line 146 prints \<^verbatim>\<open>client_id\<close> and line 147
  prints \<^verbatim>\<open>model_params\<close> before the prediction.
\<close>

definition handle_try :: "printer \<Rightarrow> handler \<Rightarrow> pyval \<Rightarrow> pyexn + response" where
  "handle_try pr h params =
     (case validate_params pr h params of
        Inl e \<Rightarrow> Inl e
      | Inr valid \<Rightarrow>
          if \<not> valid then Inr (ErrorResult (Text ''Problem with parameters''))
          else
            (case py_getitem params (lit ''model_params'') of
               Inl e \<Rightarrow> Inl e
             | Inr model_params \<Rightarrow>
                 (case py_getitem params (lit ''client_id'') of
                    Inl e \<Rightarrow> Inl e
                  | Inr cid \<Rightarrow>
                      (case py_print pr cid of
                         Inl e \<Rightarrow> Inl e
                       | Inr u \<Rightarrow>
                           (case py_print pr model_params of
                              Inl e \<Rightarrow> Inl e
                            | Inr u' \<Rightarrow>
                                (case credit_rating_predict pr h model_params of
                                   Inl e \<Rightarrow> Inl e
                                 | Inr predicted_rating \<Rightarrow>
                                     Inr (PredictionResult cid
                                            (py_float predicted_rating))))))))"

text \<open>
  \<^verbatim>\<open>handle\<close>: \<open>Inr r\<close> is \<^verbatim>\<open>return r\<close>, \<open>Inl e\<close> is an exception leaving \<^verbatim>\<open>handle\<close>. The
  clause \<^verbatim>\<open>except Exception as e\<close> returns \<^verbatim>\<open>{"Error": str(e)}\<close>.
\<close>

definition handle :: "printer \<Rightarrow> handler \<Rightarrow> pyval \<Rightarrow> pyexn + response" where
  "handle pr h params =
     (case handle_try pr h params of
        Inl e \<Rightarrow> Inr (ErrorResult (Str e))
      | Inr response \<Rightarrow> Inr response)"

section \<open>A concrete printer, models and requests\<close>

text \<open>
  A printer for values that are not nested deeply: an interpreter with the default limit
  of 4300 digits for the conversion of an integer to text, and a UTF-8 standard output.
  Printing a string on its own raises \<^verbatim>\<open>UnicodeEncodeError\<close> when it holds a surrogate
  (U+D800 to U+DFFF); inside a list or a dict \<^verbatim>\<open>repr\<close> escapes the surrogate. Printing an
  integer of more than 4300 digits, on its own or inside a list or a dict, raises
  \<^verbatim>\<open>ValueError\<close>.
\<close>

definition digit_bound :: int where
  "digit_bound = 10 ^ 4300"

primrec long_int :: "pyval \<Rightarrow> bool" where
  "long_int PNone = False"
| "long_int (PBool b) = False"
| "long_int (PInt n) = (digit_bound \<le> \<bar>n\<bar>)"
| "long_int (PFloat x) = False"
| "long_int (PStr s) = False"
| "long_int (PList xs) = list_ex id (map long_int xs)"
| "long_int (PDict d) = list_ex snd (map (map_prod id long_int) d)"

definition surrogate :: "nat \<Rightarrow> bool" where
  "surrogate c = (55296 \<le> c \<and> c \<le> 57343)"

definition utf8_printer :: printer where
  "utf8_printer v =
     (case v of
        PStr s \<Rightarrow> if list_ex surrogate s then Some UnicodeEncodeError else None
      | _ \<Rightarrow> if long_int v then Some ValueError else None)"

text \<open>A model trained on the named features \<^verbatim>\<open>a\<close>, \<^verbatim>\<open>b\<close> that scores every row.\<close>

definition named_model :: model where
  "named_model =
     \<lparr>model_feature_names = Some [lit ''a'', lit ''b''],
      predict = (\<lambda>rows. Inr (map (\<lambda>row. Float64 7) rows))\<rparr>"


text \<open>
  A model that records no feature names and scores rows of six features; any other row
  length is rejected with an exception.
\<close>

definition unnamed_model :: model where
  "unnamed_model =
     \<lparr>model_feature_names = None,
      predict = (\<lambda>rows. if list_all (\<lambda>row. length row = 6) rows
                        then Inr (map (\<lambda>row. Float64 1) rows)
                        else Inl (Raised ''wrong number of features''))\<rparr>"

definition ab_params :: "(pystr \<times> pyval) list" where
  "ab_params = [(lit ''b'', PInt 2), (lit ''a'', PInt 1)]"

definition ab_request :: "(pystr \<times> pyval) list" where
  "ab_request = [(lit ''client_id'', PStr (lit ''123'')), (lit ''model_params'', PDict ab_params)]"

definition six_params :: "(pystr \<times> pyval) list" where
  "six_params =
     [(lit ''gender'', PInt 1), (lit ''Type'', PInt 0), (lit ''PaperlessBilling'', PInt 1),
      (lit ''PaymentMethod'', PInt 0), (lit ''MonthlyCharges'', PInt 50),
      (lit ''TotalCharges'', PInt 288)]"

definition six_request :: pyval where
  "six_request =
     PDict [(lit ''client_id'', PStr (lit ''123'')), (lit ''model_params'', PDict six_params)]"

definition six_request_extra :: pyval where
  "six_request_extra =
     PDict [(lit ''client_id'', PStr (lit ''123'')),
            (lit ''model_params'', PDict (dict_update six_params [(lit ''days'', PInt 245)]))]"

text \<open>A request whose \<^verbatim>\<open>client_id\<close> is an integer and whose \<^verbatim>\<open>model_params\<close> is \<^verbatim>\<open>None\<close>.\<close>

definition bad_request :: pyval where
  "bad_request = PDict [(lit ''client_id'', PInt 1), (lit ''model_params'', PNone)]"



text \<open>
  The features \<^verbatim>\<open>a\<close>, \<^verbatim>\<open>b\<close> and an extra entry \<^verbatim>\<open>c\<close> whose value is an integer of 4301
  digits, and two requests that carry them: a well-shaped one, and one without
  \<^verbatim>\<open>client_id\<close>.
\<close>

definition huge_params :: "(pystr \<times> pyval) list" where
  "huge_params = dict_update ab_params [(lit ''c'', PInt digit_bound)]"

definition huge_request :: "(pystr \<times> pyval) list" where
  "huge_request =
     [(lit ''client_id'', PStr (lit ''123'')), (lit ''model_params'', PDict huge_params)]"

definition huge_request_no_client :: "(pystr \<times> pyval) list" where
  "huge_request_no_client = [(lit ''model_params'', PDict huge_params)]"

text \<open>A request whose \<^verbatim>\<open>client_id\<close> is the one-character string of the surrogate U+DC80.\<close>

definition surrogate_request :: "(pystr \<times> pyval) list" where
  "surrogate_request = [(lit ''client_id'', PStr [56448]), (lit ''model_params'', PDict ab_params)]"

section \<open>Auxiliary facts\<close>

lemma py_print_None [simp]: "pr v = None \<Longrightarrow> py_print pr v = Inr ()"
  by (simp add: py_print_def)

lemma py_print_Some [simp]: "pr v = Some e \<Longrightarrow> py_print pr v = Inl e"
  by (simp add: py_print_def)

lemma py_print_Inr: "py_print pr v = Inr u \<longleftrightarrow> pr v = None"
  by (simp add: py_print_def split: option.splits)

lemma py_print_Inl: "py_print pr v = Inl e \<longleftrightarrow> pr v = Some e"
  by (simp add: py_print_def split: option.splits)

lemma missing_params_dict:
  "missing_params (PDict d) req = Inr (filter (\<lambda>p. p \<notin> fst ` set d) req)"
  by (induction req) simp_all

lemma all_present_dict:
  "all_present (PDict d) req = Inr (set req \<subseteq> fst ` set d)"
  by (induction req) simp_all

lemma extra_params_dict:
  "extra_params (PDict d) req =
     Inr (filter (\<lambda>param. param \<notin> set (map PStr req)) (map (\<lambda>kv. PStr (fst kv)) d))"
  by (simp add: extra_params_def)

lemma check_required_model_params_returns:
  "check_required_model_params pr h (PDict d) = Inr b \<Longrightarrow>
   b = (set (required_model_params h) \<subseteq> fst ` set d) \<and> pr (PDict d) = None"
  by (auto simp: check_required_model_params_def missing_params_dict extra_params_dict
      all_present_dict py_print_Inr split: sum.splits if_splits)

lemma check_required_model_params_printed:
  assumes "pr (PDict d) = None"
    and "extra_params (PDict d) (required_model_params h) = Inr xs"
    and "xs = [] \<or> pr (PList xs) = None"
  shows "check_required_model_params pr h (PDict d) =
    Inr (set (required_model_params h) \<subseteq> fst ` set d)"
  using assms
  by (auto simp: check_required_model_params_def missing_params_dict all_present_dict)

lemma key_has_value: "k \<in> fst ` set d \<longleftrightarrow> (\<exists>v. map_of d k = Some v)"
  using map_of_eq_None_iff [of d k] by auto

lemma check_required_query_params_dict:
  "pr (PDict d) = None \<Longrightarrow>
   check_required_query_params pr h (PDict d) =
     Inr ((\<exists>c. map_of d (lit ''client_id'') = Some c \<and> isinstance c TStr) \<and>
          (\<exists>m. map_of d (lit ''model_params'') = Some m \<and> isinstance m TDict))"
  by (auto simp: check_required_query_params_def key_has_value split: option.splits)

lemma check_required_query_params_raises:
  "pr q = Some e \<Longrightarrow> check_required_query_params pr h q = Inl e"
  by (simp add: check_required_query_params_def)

lemma check_required_query_params_returns:
  "check_required_query_params pr h q = Inr b \<Longrightarrow> pr q = None"
  by (cases "pr q") (simp_all add: check_required_query_params_def)

lemma check_required_query_params_True:
  "check_required_query_params pr h q = Inr True \<Longrightarrow> \<exists>d. q = PDict d"
  by (cases q)
     (auto simp: check_required_query_params_def py_print_def
       split: if_splits sum.splits option.splits)

lemma isinstance_TStr: "isinstance v TStr \<longleftrightarrow> (\<exists>s. v = PStr s)"
  by (cases v) (simp_all add: isinstance_def)

lemma isinstance_TDict: "isinstance v TDict \<longleftrightarrow> (\<exists>m. v = PDict m)"
  by (cases v) (simp_all add: isinstance_def)

lemma lookup_each_dict:
  "set names \<subseteq> fst ` set d \<Longrightarrow>
   lookup_each (PDict d) names = Inr (map (\<lambda>f. the (map_of d f)) names)"
  by (induction names) (auto simp: key_has_value)

lemma lookup_each_cong:
  "\<forall>f \<in> set names. map_of d1 f = map_of d2 f \<Longrightarrow>
   lookup_each (PDict d1) names = lookup_each (PDict d2) names"
  by (induction names) (simp_all split: option.splits)

lemma keys_dict_update:
  "fst ` set (dict_update d extra) = fst ` set d \<union> fst ` set extra"
  by (induction d extra rule: dict_update.induct) (auto simp: dict_set_def dom_update)

lemma map_of_dict_update:
  "k \<notin> fst ` set extra \<Longrightarrow> map_of (dict_update d extra) k = map_of d k"
  by (induction d extra rule: dict_update.induct) (auto simp: dict_set_def update_conv')

lemma map_of_dict_set:
  "map_of (dict_set d k v) = (map_of d)(k \<mapsto> v)"
  by (simp add: dict_set_def update_conv')


lemma init_required_nonempty: "required_model_params (init m) \<noteq> []"
  by (cases "model_feature_names m" rule: truthy.cases)
     (simp_all add: init_def default_required_model_params_def)

lemma init_truthy:
  assumes "truthy (model_feature_names m)"
  shows "feature_names (init m) = model_feature_names m"
    and "required_model_params (init m) = the (model_feature_names m)"
    and "model (init m) = m"
  using assms by (simp_all add: init_def Let_def)

text \<open>
  A request that passes validation is a dict that was printed, with a string
  \<^verbatim>\<open>client_id\<close> and a printed dict \<^verbatim>\<open>model_params\<close> that has every required name.
\<close>

lemma validate_params_True:
  assumes "validate_params pr h params = Inr True"
  obtains d c mp where "params = PDict d"
    and "map_of d (lit ''client_id'') = Some (PStr c)"
    and "map_of d (lit ''model_params'') = Some (PDict mp)"
    and "set (required_model_params h) \<subseteq> fst ` set mp"
    and "pr (PDict d) = None"
    and "pr (PDict mp) = None"
proof -
  from assms have q: "check_required_query_params pr h params = Inr True"
    by (auto simp: validate_params_def split: sum.splits if_splits)
  then obtain d where d: "params = PDict d"
    using check_required_query_params_True by blast
  from q d have p: "pr (PDict d) = None"
    using check_required_query_params_returns by blast
  from q d p obtain c mp where c: "map_of d (lit ''client_id'') = Some (PStr c)"
    and mp: "map_of d (lit ''model_params'') = Some (PDict mp)"
    by (auto simp: check_required_query_params_dict isinstance_TStr isinstance_TDict)
  from assms q d mp have "check_required_model_params pr h (PDict mp) = Inr True"
    by (auto simp: validate_params_def split: sum.splits if_splits)
  then have r: "set (required_model_params h) \<subseteq> fst ` set mp"
    and pm: "pr (PDict mp) = None"
    using check_required_model_params_returns by blast+
  from d c mp r p pm show thesis by (rule that)
qed

text \<open>What validation returns on a well-shaped request is what the completeness check returns.\<close>

lemma validate_params_shaped:
  assumes "pr (PDict d) = None"
    and "map_of d (lit ''client_id'') = Some (PStr c)"
    and "map_of d (lit ''model_params'') = Some (PDict mp)"
  shows "validate_params pr h (PDict d) = check_required_model_params pr h (PDict mp)"
proof -
  from assms have "check_required_query_params pr h (PDict d) = Inr True"
    by (simp add: check_required_query_params_dict isinstance_def)
  with assms(3) show ?thesis
    by (simp add: validate_params_def split: sum.splits)
qed

lemma validate_params_unshaped:
  assumes "pr (PDict d) = None"
    and "\<not> ((\<exists>c. map_of d (lit ''client_id'') = Some (PStr c)) \<and>
            (\<exists>mp. map_of d (lit ''model_params'') = Some (PDict mp)))"
  shows "validate_params pr h (PDict d) = Inr False"
proof -
  from assms have "check_required_query_params pr h (PDict d) = Inr False"
    by (auto simp: check_required_query_params_dict isinstance_TStr isinstance_TDict)
  then show ?thesis
    by (simp add: validate_params_def)
qed

subsection \<open>The concrete printer and handlers\<close>

lemma below_digit_bound: "m < 1000 \<Longrightarrow> \<not> digit_bound \<le> m"
proof -
  have "(10::int) ^ 3 \<le> 10 ^ 4300"
    by (rule power_increasing) simp_all
  moreover have "(10::int) ^ 3 = 1000" by simp
  ultimately have "(1000::int) \<le> digit_bound" by (simp only: digit_bound_def)
  then show "m < 1000 \<Longrightarrow> \<not> digit_bound \<le> m" by linarith
qed

lemma long_int_digit_bound: "long_int (PInt digit_bound)"
  by simp

lemma init_named_model:
  "init named_model =
     \<lparr>model = named_model, feature_names = Some [lit ''a'', lit ''b''],
      required_model_params = [lit ''a'', lit ''b'']\<rparr>"
  by (simp add: init_def named_model_def Let_def)


lemma init_unnamed_model:
  "init unnamed_model =
     \<lparr>model = unnamed_model, feature_names = None,
      required_model_params = default_required_model_params\<rparr>"
  by (simp add: init_def unnamed_model_def Let_def)

lemma prints_ab:
  "utf8_printer (PDict ab_params) = None"
  "utf8_printer (PDict ab_request) = None"
  "utf8_printer (PStr (lit ''123'')) = None"
  "utf8_printer (PList [PInt 1, PInt 2]) = None"
  by (simp_all add: utf8_printer_def ab_params_def ab_request_def below_digit_bound surrogate_def)

lemma prints_huge:
  "utf8_printer (PDict huge_params) = Some ValueError"
  "utf8_printer (PDict huge_request) = Some ValueError"
  "utf8_printer (PDict huge_request_no_client) = Some ValueError"
  by (simp_all add: utf8_printer_def huge_params_def huge_request_def huge_request_no_client_def
      ab_params_def dict_set_def below_digit_bound)

lemma validated_ab:
  "validate_params utf8_printer (init named_model) (PDict ab_request) = Inr True"
proof -
  have x: "extra_params (PDict ab_params) (required_model_params (init named_model)) = Inr []"
    by (simp add: extra_params_def init_named_model ab_params_def)
  have "check_required_model_params utf8_printer (init named_model) (PDict ab_params) = Inr True"
    using check_required_model_params_printed
      [of utf8_printer ab_params "init named_model" "[]", OF prints_ab(1) x]
    by (simp add: init_named_model ab_params_def)
  moreover have "validate_params utf8_printer (init named_model) (PDict ab_request)
      = check_required_model_params utf8_printer (init named_model) (PDict ab_params)"
    using validate_params_shaped
      [of utf8_printer ab_request "lit ''123''" ab_params "init named_model"] prints_ab(2)
    by (simp add: ab_request_def)
  ultimately show ?thesis by simp
qed

lemma handle_not_valid:
  "validate_params pr h p = Inr False \<Longrightarrow>
   handle pr h p = Inr (ErrorResult (Text ''Problem with parameters''))"
  by (simp add: handle_def handle_try_def)

lemma handle_validation_raises:
  "validate_params pr h p = Inl e \<Longrightarrow> handle pr h p = Inr (ErrorResult (Str e))"
  by (simp add: handle_def handle_try_def)

lemma validate_params_print_raises:
  "pr p = Some e \<Longrightarrow> validate_params pr h p = Inl e"
  by (simp add: validate_params_def check_required_query_params_raises)

lemma predict_named:
  "predict (model (init named_model)) [[PInt 1, PInt 2]] = Inr [Float64 7]"
  unfolding init_named_model by (simp add: named_model_def)

lemma input_data_ab:
  "input_data (init named_model) (PDict ab_params) = Inr [PInt 1, PInt 2]"
  by (simp add: input_data_def init_named_model ab_params_def)

lemma credit_rating_predict_ab:
  "credit_rating_predict utf8_printer (init named_model) (PDict ab_params) = Inr (Float64 7)"
  by (simp add: credit_rating_predict_def prints_ab input_data_ab predict_named)



lemma dict_set_new_key:
  "k \<notin> fst ` set d \<Longrightarrow> dict_set d k v = d @ [(k, v)]"
  by (induction d) (auto simp: dict_set_def)

lemma six_params_extra:
  "dict_update six_params [(lit ''days'', PInt 245)] = six_params @ [(lit ''days'', PInt 245)]"
  by (simp add: dict_set_new_key six_params_def)

lemma six_request_extra_eq:
  "six_request_extra
     = PDict [(lit ''client_id'', PStr (lit ''123'')),
              (lit ''model_params'', PDict (six_params @ [(lit ''days'', PInt 245)]))]"
  unfolding six_request_extra_def six_params_extra by (rule refl)

lemma prints_six:
  "utf8_printer (PDict six_params) = None"
  "utf8_printer (PDict (six_params @ [(lit ''days'', PInt 245)])) = None"
  "utf8_printer (PList [PStr (lit ''days'')]) = None"
  "utf8_printer (PList [PInt 1, PInt 0, PInt 1, PInt 0, PInt 50, PInt 288]) = None"
  "utf8_printer (PList [PInt 1, PInt 0, PInt 1, PInt 0, PInt 50, PInt 288, PInt 245]) = None"
  "utf8_printer six_request = None"
  "utf8_printer
     (PDict [(lit ''client_id'', PStr (lit ''123'')),
             (lit ''model_params'', PDict (six_params @ [(lit ''days'', PInt 245)]))]) = None"
  by (simp_all add: utf8_printer_def six_request_def six_params_def below_digit_bound)

lemma validated_six:
  "validate_params utf8_printer (init unnamed_model) six_request = Inr True"
proof -
  let ?h = "init unnamed_model"
  have r: "required_model_params ?h = default_required_model_params"
    by (simp add: init_unnamed_model)
  have x6: "extra_params (PDict six_params) (required_model_params ?h) = Inr []"
    by (simp add: extra_params_def r default_required_model_params_def six_params_def)
  have c6: "check_required_model_params utf8_printer ?h (PDict six_params) = Inr True"
    using check_required_model_params_printed
      [of utf8_printer six_params ?h "[]", OF prints_six(1) x6]
    by (simp add: r default_required_model_params_def six_params_def)
  show ?thesis
    using validate_params_shaped
      [of utf8_printer "[(lit ''client_id'', PStr (lit ''123'')),
          (lit ''model_params'', PDict six_params)]" "lit ''123''" six_params ?h]
      prints_six(6) c6
    unfolding six_request_def by simp
qed

lemma validated_six_extra:
  "validate_params utf8_printer (init unnamed_model) six_request_extra = Inr True"
proof -
  let ?h = "init unnamed_model"
  let ?seven = "six_params @ [(lit ''days'', PInt 245)]"
  have r: "required_model_params ?h = default_required_model_params"
    by (simp add: init_unnamed_model)
  have x7: "extra_params (PDict ?seven) (required_model_params ?h) = Inr [PStr (lit ''days'')]"
    by (simp add: extra_params_def r default_required_model_params_def six_params_def)
  have c7: "check_required_model_params utf8_printer ?h (PDict ?seven) = Inr True"
    using check_required_model_params_printed
      [of utf8_printer ?seven ?h "[PStr (lit ''days'')]", OF prints_six(2) x7] prints_six(3)
    by (simp add: r default_required_model_params_def six_params_def)
  show ?thesis
    unfolding six_request_extra_eq
    using validate_params_shaped
      [of utf8_printer "[(lit ''client_id'', PStr (lit ''123'')),
          (lit ''model_params'', PDict ?seven)]" "lit ''123''" ?seven ?h]
      prints_six(7) c7
    by simp
qed

section \<open>The shape check\<close>

text \<open>
  C4, on a query whose print raises. The property "\<^verbatim>\<open>check_required_query_params(query)\<close>
  returns true if and only if \<open>query\<close> contains both keys, the value at \<^verbatim>\<open>client_id\<close> is a
  string and the value at \<^verbatim>\<open>model_params\<close> is a mapping" fails here: the query has both
  keys with values of the right types, but it holds an integer of 4301 digits, the print
  of line 71 raises \<^verbatim>\<open>ValueError\<close> and the check returns nothing.
\<close>

theorem check_required_query_params_print_raises:
  "map_of huge_request (lit ''client_id'') = Some (PStr (lit ''123''))
   \<and> map_of huge_request (lit ''model_params'') = Some (PDict huge_params)
   \<and> check_required_query_params utf8_printer (init named_model) (PDict huge_request)
       = Inl ValueError
   \<and> check_required_query_params utf8_printer (init named_model) (PDict huge_request)
       \<noteq> Inr True"
proof -
  have 1: "map_of huge_request (lit ''client_id'') = Some (PStr (lit ''123''))"
    and 2: "map_of huge_request (lit ''model_params'') = Some (PDict huge_params)"
    by (simp_all add: huge_request_def)
  have 3: "check_required_query_params utf8_printer (init named_model) (PDict huge_request)
       = Inl ValueError"
    by (simp add: check_required_query_params_raises prints_huge)
  from 1 2 3 show ?thesis by simp
qed

text \<open>
  C4, for a query whose print succeeds. \<^verbatim>\<open>check_required_query_params(query)\<close> returns
  true if and only if the print of \<open>query\<close> succeeds and \<open>query\<close> contains both keys
  \<^verbatim>\<open>client_id\<close> and \<^verbatim>\<open>model_params\<close>, the value at \<^verbatim>\<open>client_id\<close> is a string and the value at
  \<^verbatim>\<open>model_params\<close> is a mapping. On a dict whose print succeeds the check returns that
  conjunction, so a missing key or a value of the wrong type alone makes it return false;
  on a query whose print raises, the check raises the same exception.
\<close>

theorem check_required_query_params_iff:
  "(pr (PDict d) = None \<longrightarrow>
      check_required_query_params pr h (PDict d) =
        Inr ((\<exists>c. map_of d (lit ''client_id'') = Some c \<and> isinstance c TStr) \<and>
             (\<exists>m. map_of d (lit ''model_params'') = Some m \<and> isinstance m TDict)))
   \<and> (pr query = Some e \<longrightarrow> check_required_query_params pr h query = Inl e)
   \<and> (check_required_query_params pr h query = Inr True \<longleftrightarrow>
        pr query = None \<and>
        (\<exists>d' c m. query = PDict d' \<and> map_of d' (lit ''client_id'') = Some (PStr c) \<and>
                   map_of d' (lit ''model_params'') = Some (PDict m)))
   \<and> (pr (PDict d) = None \<and>
        (lit ''client_id'' \<notin> fst ` set d \<or> lit ''model_params'' \<notin> fst ` set d) \<longrightarrow>
        check_required_query_params pr h (PDict d) = Inr False)
   \<and> (pr (PDict d) = None \<and> map_of d (lit ''client_id'') = Some v \<and> \<not> isinstance v TStr \<longrightarrow>
        check_required_query_params pr h (PDict d) = Inr False)
   \<and> (pr (PDict d) = None \<and> map_of d (lit ''model_params'') = Some v \<and> \<not> isinstance v TDict \<longrightarrow>
        check_required_query_params pr h (PDict d) = Inr False)"
proof (intro conjI)
  show "pr (PDict d) = None \<longrightarrow>
      check_required_query_params pr h (PDict d) =
        Inr ((\<exists>c. map_of d (lit ''client_id'') = Some c \<and> isinstance c TStr) \<and>
             (\<exists>m. map_of d (lit ''model_params'') = Some m \<and> isinstance m TDict))"
    by (simp add: check_required_query_params_dict)
  show "pr query = Some e \<longrightarrow> check_required_query_params pr h query = Inl e"
    by (simp add: check_required_query_params_raises)
  show "check_required_query_params pr h query = Inr True \<longleftrightarrow>
        pr query = None \<and>
        (\<exists>d' c m. query = PDict d' \<and> map_of d' (lit ''client_id'') = Some (PStr c) \<and>
                   map_of d' (lit ''model_params'') = Some (PDict m))"
  proof
    assume t: "check_required_query_params pr h query = Inr True"
    then obtain d' where q: "query = PDict d'"
      using check_required_query_params_True by blast
    from t have p: "pr query = None"
      by (rule check_required_query_params_returns)
    from t q p have "\<exists>c m. map_of d' (lit ''client_id'') = Some (PStr c) \<and>
                   map_of d' (lit ''model_params'') = Some (PDict m)"
      by (auto simp: check_required_query_params_dict isinstance_TStr isinstance_TDict)
    with q p show "pr query = None \<and>
        (\<exists>d' c m. query = PDict d' \<and> map_of d' (lit ''client_id'') = Some (PStr c) \<and>
                   map_of d' (lit ''model_params'') = Some (PDict m))"
      by blast
  next
    assume "pr query = None \<and>
        (\<exists>d' c m. query = PDict d' \<and> map_of d' (lit ''client_id'') = Some (PStr c) \<and>
                   map_of d' (lit ''model_params'') = Some (PDict m))"
    then show "check_required_query_params pr h query = Inr True"
      by (auto simp: check_required_query_params_dict isinstance_def)
  qed
  show "pr (PDict d) = None \<and>
        (lit ''client_id'' \<notin> fst ` set d \<or> lit ''model_params'' \<notin> fst ` set d) \<longrightarrow>
        check_required_query_params pr h (PDict d) = Inr False"
    by (auto simp: check_required_query_params_dict key_has_value)
  show "pr (PDict d) = None \<and> map_of d (lit ''client_id'') = Some v \<and> \<not> isinstance v TStr \<longrightarrow>
        check_required_query_params pr h (PDict d) = Inr False"
    by (auto simp: check_required_query_params_dict)
  show "pr (PDict d) = None \<and> map_of d (lit ''model_params'') = Some v \<and> \<not> isinstance v TDict \<longrightarrow>
        check_required_query_params pr h (PDict d) = Inr False"
    by (auto simp: check_required_query_params_dict)
qed

theorem check_required_query_params_iff_witness:
  "utf8_printer (PDict ab_request) = None
   \<and> map_of ab_request (lit ''client_id'') = Some (PStr (lit ''123''))
   \<and> map_of ab_request (lit ''model_params'') = Some (PDict ab_params)
   \<and> check_required_query_params utf8_printer (init named_model) (PDict ab_request) = Inr True
   \<and> utf8_printer bad_request = None
   \<and> map_of [(lit ''client_id'', PInt 1), (lit ''model_params'', PNone)] (lit ''client_id'')
       = Some (PInt 1)
   \<and> \<not> isinstance (PInt 1) TStr
   \<and> check_required_query_params utf8_printer (init named_model) bad_request = Inr False
   \<and> utf8_printer (PDict [(lit ''model_params'', PDict ab_params)]) = None
   \<and> lit ''client_id'' \<notin> fst ` set [(lit ''model_params'', PDict ab_params)]
   \<and> check_required_query_params utf8_printer (init named_model)
        (PDict [(lit ''model_params'', PDict ab_params)]) = Inr False
   \<and> utf8_printer (PDict huge_request) = Some ValueError
   \<and> check_required_query_params utf8_printer (init named_model) (PDict huge_request)
       = Inl ValueError"
proof -
  have p1: "utf8_printer (PDict ab_request) = None"
    by (rule prints_ab)
  have a: "map_of ab_request (lit ''client_id'') = Some (PStr (lit ''123''))"
    and b: "map_of ab_request (lit ''model_params'') = Some (PDict ab_params)"
    by (simp_all add: ab_request_def)
  have p2: "utf8_printer bad_request = None"
    by (simp add: utf8_printer_def bad_request_def below_digit_bound)
  have p2': "utf8_printer (PDict [(lit ''client_id'', PInt 1), (lit ''model_params'', PNone)]) = None"
    using p2 by (simp add: bad_request_def)
  have c: "map_of [(lit ''client_id'', PInt 1), (lit ''model_params'', PNone)] (lit ''client_id'')
       = Some (PInt 1) \<and> \<not> isinstance (PInt 1) TStr"
    by (simp add: isinstance_def)
  have p3: "utf8_printer (PDict [(lit ''model_params'', PDict ab_params)]) = None"
    by (simp add: utf8_printer_def ab_params_def below_digit_bound)
  have d: "lit ''client_id'' \<notin> fst ` set [(lit ''model_params'', PDict ab_params)]"
    by simp
  have p4: "utf8_printer (PDict huge_request) = Some ValueError"
    by (rule prints_huge)
  note t = check_required_query_params_iff
  from p1 a b t [of utf8_printer ab_request "init named_model" "PDict ab_request" ValueError PNone]
  have 1: "check_required_query_params utf8_printer (init named_model) (PDict ab_request) = Inr True"
    by blast
  from p2' c t [of utf8_printer "[(lit ''client_id'', PInt 1), (lit ''model_params'', PNone)]"
      "init named_model" PNone ValueError "PInt 1"]
  have 2: "check_required_query_params utf8_printer (init named_model) bad_request = Inr False"
    unfolding bad_request_def by blast
  from p3 d t [of utf8_printer "[(lit ''model_params'', PDict ab_params)]" "init named_model"
      PNone ValueError PNone]
  have 3: "check_required_query_params utf8_printer (init named_model)
        (PDict [(lit ''model_params'', PDict ab_params)]) = Inr False"
    by blast
  from p4 t [of utf8_printer "[]" "init named_model" "PDict huge_request" ValueError PNone]
  have 4: "check_required_query_params utf8_printer (init named_model) (PDict huge_request)
       = Inl ValueError"
    by blast
  from p1 a b 1 p2 c 2 p3 d 3 p4 4 show ?thesis by simp
qed

section \<open>The completeness check\<close>

text \<open>
  C5, on model parameters whose print raises. The property
  "\<^verbatim>\<open>check_required_model_params(model_params)\<close> returns true if and only if every name of
  the required feature schema is a key of \<open>model_params\<close>, and keys not in the schema do not
  make it return false" fails here: \<^verbatim>\<open>{"b": 2, "a": 1}\<close> has both required names and the
  check returns true on it, but with the extra entry \<^verbatim>\<open>c\<close>, an integer of 4301 digits,
  the print of line 97 raises \<^verbatim>\<open>ValueError\<close> and the check returns nothing.
\<close>

theorem check_required_model_params_print_raises:
  "set (required_model_params (init named_model)) \<subseteq> fst ` set huge_params
   \<and> lit ''c'' \<notin> set (required_model_params (init named_model))
   \<and> huge_params = dict_update ab_params [(lit ''c'', PInt digit_bound)]
   \<and> check_required_model_params utf8_printer (init named_model) (PDict ab_params) = Inr True
   \<and> check_required_model_params utf8_printer (init named_model) (PDict huge_params)
       = Inl ValueError
   \<and> check_required_model_params utf8_printer (init named_model) (PDict huge_params)
       \<noteq> Inr True"
proof -
  have 1: "set (required_model_params (init named_model)) \<subseteq> fst ` set huge_params"
    by (simp add: init_named_model huge_params_def ab_params_def dict_set_def)
  have 2: "lit ''c'' \<notin> set (required_model_params (init named_model))"
    by (simp add: init_named_model)
  have x: "extra_params (PDict ab_params) (required_model_params (init named_model)) = Inr []"
    by (simp add: extra_params_def init_named_model ab_params_def)
  have 3: "check_required_model_params utf8_printer (init named_model) (PDict ab_params) = Inr True"
    using check_required_model_params_printed
      [of utf8_printer ab_params "init named_model" "[]", OF prints_ab(1) x]
    by (simp add: init_named_model ab_params_def)
  have 4: "check_required_model_params utf8_printer (init named_model) (PDict huge_params)
       = Inl ValueError"
    by (simp add: check_required_model_params_def prints_huge)
  from 1 2 3 4 show ?thesis by (simp add: huge_params_def)
qed

text \<open>
  C5, for model parameters whose prints succeed. Whenever
  \<^verbatim>\<open>check_required_model_params(model_params)\<close> returns, it returns true if and only if
  every name of the required feature schema is a key of \<open>model_params\<close>; it returns when
  the print of \<open>model_params\<close> and the print of the list of its extra keys, if there are
  any, succeed. Among the results it returns, entries whose keys are not in the schema
  change nothing, and neither does the order of the entries. When the print of
  \<open>model_params\<close> raises, the check raises the same exception.
\<close>

theorem check_required_model_params_iff:
  "(check_required_model_params pr h (PDict mp) = Inr b \<longrightarrow>
      b = (\<forall>name \<in> set (required_model_params h). name \<in> fst ` set mp))
   \<and> (pr (PDict mp) = None \<and> extra_params (PDict mp) (required_model_params h) = Inr xs \<and>
        (xs = [] \<or> pr (PList xs) = None) \<longrightarrow>
      check_required_model_params pr h (PDict mp) =
        Inr (\<forall>name \<in> set (required_model_params h). name \<in> fst ` set mp))
   \<and> ((\<forall>k \<in> fst ` set extra. k \<notin> set (required_model_params h)) \<and>
        check_required_model_params pr h (PDict mp) = Inr b \<and>
        check_required_model_params pr h (PDict (dict_update mp extra)) = Inr b' \<longrightarrow>
      b' = b)
   \<and> (mset mp' = mset mp \<and>
        check_required_model_params pr h (PDict mp) = Inr b \<and>
        check_required_model_params pr h (PDict mp') = Inr b' \<longrightarrow>
      b' = b)
   \<and> (pr (PDict mp) = Some e \<longrightarrow> check_required_model_params pr h (PDict mp) = Inl e)"
proof (intro conjI impI)
  assume "check_required_model_params pr h (PDict mp) = Inr b"
  then show "b = (\<forall>name \<in> set (required_model_params h). name \<in> fst ` set mp)"
    using check_required_model_params_returns by blast
next
  assume "pr (PDict mp) = None \<and> extra_params (PDict mp) (required_model_params h) = Inr xs \<and>
        (xs = [] \<or> pr (PList xs) = None)"
  then have "check_required_model_params pr h (PDict mp) =
      Inr (set (required_model_params h) \<subseteq> fst ` set mp)"
    using check_required_model_params_printed by blast
  then show "check_required_model_params pr h (PDict mp) =
        Inr (\<forall>name \<in> set (required_model_params h). name \<in> fst ` set mp)"
    by (simp add: subset_eq)
next
  assume a: "(\<forall>k \<in> fst ` set extra. k \<notin> set (required_model_params h)) \<and>
        check_required_model_params pr h (PDict mp) = Inr b \<and>
        check_required_model_params pr h (PDict (dict_update mp extra)) = Inr b'"
  then have "b = (set (required_model_params h) \<subseteq> fst ` set mp)"
    and "b' = (set (required_model_params h) \<subseteq> fst ` set (dict_update mp extra))"
    using check_required_model_params_returns by blast+
  with a show "b' = b"
    by (auto simp: keys_dict_update)
next
  assume a: "mset mp' = mset mp \<and>
        check_required_model_params pr h (PDict mp) = Inr b \<and>
        check_required_model_params pr h (PDict mp') = Inr b'"
  then have "set mp' = set mp" by (blast dest: mset_eq_setD)
  moreover from a have "b = (set (required_model_params h) \<subseteq> fst ` set mp)"
    and "b' = (set (required_model_params h) \<subseteq> fst ` set mp')"
    using check_required_model_params_returns by blast+
  ultimately show "b' = b" by simp
next
  assume "pr (PDict mp) = Some e"
  then show "check_required_model_params pr h (PDict mp) = Inl e"
    by (simp add: check_required_model_params_def)
qed

theorem check_required_model_params_iff_witness:
  "utf8_printer (PDict ab_params) = None
   \<and> extra_params (PDict ab_params) (required_model_params (init named_model)) = Inr []
   \<and> check_required_model_params utf8_printer (init named_model) (PDict ab_params) = Inr True
   \<and> utf8_printer (PDict (dict_update ab_params [(lit ''c'', PInt 3)])) = None
   \<and> extra_params (PDict (dict_update ab_params [(lit ''c'', PInt 3)]))
        (required_model_params (init named_model)) = Inr [PStr (lit ''c'')]
   \<and> utf8_printer (PList [PStr (lit ''c'')]) = None
   \<and> check_required_model_params utf8_printer (init named_model)
        (PDict (dict_update ab_params [(lit ''c'', PInt 3)])) = Inr True
   \<and> mset [(lit ''a'', PInt 1), (lit ''b'', PInt 2)] = mset ab_params
   \<and> check_required_model_params utf8_printer (init named_model)
        (PDict [(lit ''a'', PInt 1), (lit ''b'', PInt 2)]) = Inr True
   \<and> check_required_model_params utf8_printer (init named_model)
        (PDict [(lit ''b'', PInt 2), (lit ''c'', PInt 3)]) = Inr False
   \<and> utf8_printer (PDict huge_params) = Some ValueError
   \<and> check_required_model_params utf8_printer (init named_model) (PDict huge_params)
       = Inl ValueError"
proof -
  let ?h = "init named_model"
  let ?abc = "dict_update ab_params [(lit ''c'', PInt 3)]"
  have r: "required_model_params ?h = [lit ''a'', lit ''b'']"
    by (simp add: init_named_model)
  have p1: "utf8_printer (PDict ab_params) = None"
    by (rule prints_ab)
  have x1: "extra_params (PDict ab_params) (required_model_params ?h) = Inr []"
    by (simp add: extra_params_def r ab_params_def)
  have p2: "utf8_printer (PDict ?abc) = None"
    by (simp add: utf8_printer_def ab_params_def dict_set_def below_digit_bound)
  have x2: "extra_params (PDict ?abc) (required_model_params ?h) = Inr [PStr (lit ''c'')]"
    by (simp add: extra_params_def r ab_params_def dict_set_def)
  have p3: "utf8_printer (PList [PStr (lit ''c'')]) = None"
    by (simp add: utf8_printer_def)
  have e: "\<forall>k \<in> fst ` set [(lit ''c'', PInt 3)]. k \<notin> set (required_model_params ?h)"
    by (simp add: r)
  have m: "mset [(lit ''a'', PInt 1), (lit ''b'', PInt 2)] = mset ab_params"
    by (simp add: ab_params_def)
  have p4: "utf8_printer (PDict [(lit ''a'', PInt 1), (lit ''b'', PInt 2)]) = None"
    by (simp add: utf8_printer_def below_digit_bound)
  have x4: "extra_params (PDict [(lit ''a'', PInt 1), (lit ''b'', PInt 2)])
      (required_model_params ?h) = Inr []"
    by (simp add: extra_params_def r)
  have p5: "utf8_printer (PDict [(lit ''b'', PInt 2), (lit ''c'', PInt 3)]) = None"
    by (simp add: utf8_printer_def below_digit_bound)
  have x5: "extra_params (PDict [(lit ''b'', PInt 2), (lit ''c'', PInt 3)])
      (required_model_params ?h) = Inr [PStr (lit ''c'')]"
    by (simp add: extra_params_def r)
  note t = check_required_model_params_iff
  from p1 x1 t [of utf8_printer ?h ab_params True "[]" "[]" True "[]"]
  have 1: "check_required_model_params utf8_printer ?h (PDict ab_params) = Inr True"
    by (simp add: r ab_params_def)
  from p2 x2 p3 t [of utf8_printer ?h ?abc True "[PStr (lit ''c'')]" "[]" True "[]"]
  obtain b' where 2: "check_required_model_params utf8_printer ?h (PDict ?abc) = Inr b'"
    by blast
  from e 1 2 t [of utf8_printer ?h ab_params True "[]" "[(lit ''c'', PInt 3)]" b' "[]"]
  have "b' = True" by blast
  with 2 have 3: "check_required_model_params utf8_printer ?h (PDict ?abc) = Inr True"
    by simp
  from p4 x4 t [of utf8_printer ?h "[(lit ''a'', PInt 1), (lit ''b'', PInt 2)]" True "[]" "[]"
      True "[]"]
  obtain b'' where 4: "check_required_model_params utf8_printer ?h
      (PDict [(lit ''a'', PInt 1), (lit ''b'', PInt 2)]) = Inr b''"
    by blast
  from m 1 4 t [of utf8_printer ?h ab_params True "[]" "[]" b''
      "[(lit ''a'', PInt 1), (lit ''b'', PInt 2)]"]
  have "b'' = True" by blast
  with 4 have 5: "check_required_model_params utf8_printer ?h
      (PDict [(lit ''a'', PInt 1), (lit ''b'', PInt 2)]) = Inr True"
    by simp
  from p5 x5 p3 t [of utf8_printer ?h "[(lit ''b'', PInt 2), (lit ''c'', PInt 3)]" True
      "[PStr (lit ''c'')]" "[]" True "[]"]
  have 6: "check_required_model_params utf8_printer ?h
      (PDict [(lit ''b'', PInt 2), (lit ''c'', PInt 3)]) = Inr False"
    by (simp add: r)
  from prints_huge(1) t [of utf8_printer ?h huge_params True "[]" "[]" True "[]" ValueError]
  have 7: "check_required_model_params utf8_printer ?h (PDict huge_params) = Inl ValueError"
    by blast
  from p1 x1 1 p2 x2 p3 3 m 5 6 prints_huge(1) 7 show ?thesis by simp
qed

section \<open>Validation\<close>

text \<open>
  C6. \<^verbatim>\<open>validate_params(request)\<close> short-circuits: when the shape check returns false it
  returns false, whatever the completeness check would do; when the shape check returns
  true, the request has a \<^verbatim>\<open>model_params\<close> entry and \<^verbatim>\<open>validate_params\<close> returns the result
  of the completeness check on it.
\<close>

theorem validate_params_short_circuit:
  "(check_required_query_params pr h params = Inr False \<longrightarrow>
      validate_params pr h params = Inr False)
   \<and> (check_required_query_params pr h params = Inr True \<longrightarrow>
        (\<exists>mp. py_getitem params (lit ''model_params'') = Inr mp \<and>
              validate_params pr h params = check_required_model_params pr h mp))"
proof (intro conjI impI)
  assume "check_required_query_params pr h params = Inr False"
  then show "validate_params pr h params = Inr False"
    by (simp add: validate_params_def)
next
  assume q: "check_required_query_params pr h params = Inr True"
  then obtain d where d: "params = PDict d"
    using check_required_query_params_True by blast
  from q d have "pr (PDict d) = None"
    using check_required_query_params_returns by blast
  with q d obtain mp where mp: "map_of d (lit ''model_params'') = Some mp"
    by (auto simp: check_required_query_params_dict)
  have "validate_params pr h params = check_required_model_params pr h mp"
    using q d mp by (simp add: validate_params_def split: sum.splits)
  with d mp show "\<exists>mp. py_getitem params (lit ''model_params'') = Inr mp \<and>
      validate_params pr h params = check_required_model_params pr h mp"
    by simp
qed

theorem validate_params_short_circuit_witness:
  "check_required_query_params utf8_printer (init named_model) bad_request = Inr False
   \<and> check_required_model_params utf8_printer (init named_model) PNone
       = Inl (TypeError Contains NoneType)
   \<and> validate_params utf8_printer (init named_model) bad_request = Inr False
   \<and> check_required_query_params utf8_printer (init named_model) (PDict ab_request) = Inr True
   \<and> py_getitem (PDict ab_request) (lit ''model_params'') = Inr (PDict ab_params)
   \<and> check_required_model_params utf8_printer (init named_model) (PDict ab_params) = Inr True
   \<and> validate_params utf8_printer (init named_model) (PDict ab_request) = Inr True"
proof -
  let ?h = "init named_model"
  have pb: "utf8_printer (PDict [(lit ''client_id'', PInt 1), (lit ''model_params'', PNone)]) = None"
    by (simp add: utf8_printer_def below_digit_bound)
  have 1: "check_required_query_params utf8_printer ?h bad_request = Inr False"
    unfolding bad_request_def using pb
    by (simp add: check_required_query_params_dict isinstance_def)
  have 2: "check_required_model_params utf8_printer ?h PNone = Inl (TypeError Contains NoneType)"
    by (simp add: check_required_model_params_def init_named_model utf8_printer_def)
  have 3: "check_required_query_params utf8_printer ?h (PDict ab_request) = Inr True"
    using prints_ab(2)
    by (simp add: check_required_query_params_dict isinstance_def) (simp add: ab_request_def)
  have 4: "py_getitem (PDict ab_request) (lit ''model_params'') = Inr (PDict ab_params)"
    by (simp add: ab_request_def)
  have x: "extra_params (PDict ab_params) (required_model_params ?h) = Inr []"
    by (simp add: extra_params_def init_named_model ab_params_def)
  have 5: "check_required_model_params utf8_printer ?h (PDict ab_params) = Inr True"
    using check_required_model_params_printed
      [of utf8_printer ab_params ?h "[]", OF prints_ab(1) x]
    by (simp add: init_named_model ab_params_def)
  note t = validate_params_short_circuit
  from 1 t [of utf8_printer ?h bad_request]
  have 6: "validate_params utf8_printer ?h bad_request = Inr False"
    by blast
  from 3 4 5 t [of utf8_printer ?h "PDict ab_request"]
  have 7: "validate_params utf8_printer ?h (PDict ab_request) = Inr True"
    by auto
  from 1 2 3 4 5 6 7 show ?thesis by simp
qed

section \<open>Assembling the feature vector\<close>

text \<open>
  C3. When the model exposes feature names, the feature vector is the values found by
  looking each schema name up in \<open>model_params\<close>, in schema order: for the schema
  \<^verbatim>\<open>["a","b"]\<close> and \<^verbatim>\<open>{"b":2,"a":1}\<close> it is \<^verbatim>\<open>[1,2]\<close>. When no feature names are exposed, it
  is the values of \<open>model_params\<close> in their iteration order.
\<close>

theorem input_data_schema_order:
  "(feature_names h = Some names \<and> names \<noteq> [] \<and> set names \<subseteq> fst ` set mp \<longrightarrow>
      input_data h (PDict mp) = Inr (map (\<lambda>name. the (map_of mp name)) names))
   \<and> (feature_names h = Some [lit ''a'', lit ''b''] \<longrightarrow>
      input_data h (PDict [(lit ''b'', PInt 2), (lit ''a'', PInt 1)]) = Inr [PInt 1, PInt 2])
   \<and> (\<not> truthy (feature_names h) \<longrightarrow> input_data h (PDict mp) = Inr (map snd mp))"
proof (intro conjI impI)
  assume a: "feature_names h = Some names \<and> names \<noteq> [] \<and> set names \<subseteq> fst ` set mp"
  then have "truthy (feature_names h)" by (cases names) simp_all
  with a show "input_data h (PDict mp) = Inr (map (\<lambda>name. the (map_of mp name)) names)"
    by (simp add: input_data_def lookup_each_dict)
next
  assume "feature_names h = Some [lit ''a'', lit ''b'']"
  then show "input_data h (PDict [(lit ''b'', PInt 2), (lit ''a'', PInt 1)]) = Inr [PInt 1, PInt 2]"
    by (simp add: input_data_def)
next
  assume "\<not> truthy (feature_names h)"
  then show "input_data h (PDict mp) = Inr (map snd mp)"
    by (simp add: input_data_def)
qed

theorem input_data_schema_order_witness:
  "feature_names (init named_model) = Some [lit ''a'', lit ''b'']
   \<and> input_data (init named_model) (PDict [(lit ''b'', PInt 2), (lit ''a'', PInt 1)])
       = Inr [PInt 1, PInt 2]
   \<and> set [lit ''a'', lit ''b'']
       \<subseteq> fst ` set [(lit ''c'', PInt 3), (lit ''b'', PInt 2), (lit ''a'', PInt 1)]
   \<and> input_data (init named_model)
        (PDict [(lit ''c'', PInt 3), (lit ''b'', PInt 2), (lit ''a'', PInt 1)])
       = Inr [PInt 1, PInt 2]
   \<and> \<not> truthy (feature_names (init unnamed_model))
   \<and> input_data (init unnamed_model) (PDict six_params)
       = Inr [PInt 1, PInt 0, PInt 1, PInt 0, PInt 50, PInt 288]"
proof -
  have 1: "feature_names (init named_model) = Some [lit ''a'', lit ''b'']"
    by (simp add: init_named_model)
  have 2: "\<not> truthy (feature_names (init unnamed_model))"
    by (simp add: init_unnamed_model)
  note t = input_data_schema_order
  from 1 t [of "init named_model" "[lit ''a'', lit ''b'']" "[]"]
  have 3: "input_data (init named_model) (PDict [(lit ''b'', PInt 2), (lit ''a'', PInt 1)])
      = Inr [PInt 1, PInt 2]"
    by blast
  from 2 t [of "init unnamed_model" "[]" six_params]
  have 4: "input_data (init unnamed_model) (PDict six_params)
       = Inr [PInt 1, PInt 0, PInt 1, PInt 0, PInt 50, PInt 288]"
    by (simp add: six_params_def)
  have 5: "set [lit ''a'', lit ''b'']
      \<subseteq> fst ` set [(lit ''c'', PInt 3), (lit ''b'', PInt 2), (lit ''a'', PInt 1)]"
    by simp
  from 1 5 t [of "init named_model" "[lit ''a'', lit ''b'']"
      "[(lit ''c'', PInt 3), (lit ''b'', PInt 2), (lit ''a'', PInt 1)]"]
  have 6: "input_data (init named_model)
      (PDict [(lit ''c'', PInt 3), (lit ''b'', PInt 2), (lit ''a'', PInt 1)])
       = Inr [PInt 1, PInt 2]"
    by simp
  from 1 2 3 4 5 6 show ?thesis by simp
qed

section \<open>Responses of \<^verbatim>\<open>handle\<close>\<close>

text \<open>
  C2, on a request whose print raises. The property "for every request missing the key
  \<^verbatim>\<open>client_id\<close>, \<^verbatim>\<open>handle\<close> returns exactly \<^verbatim>\<open>{"Error": "Problem with parameters"}\<close>" fails
  here: the request has no \<^verbatim>\<open>client_id\<close>, but it holds an integer of 4301 digits, the
  print of line 71 raises \<^verbatim>\<open>ValueError\<close> inside the \<^verbatim>\<open>try\<close> block, and \<^verbatim>\<open>handle\<close> returns the
  error object of that exception.
\<close>

theorem handle_missing_key_print_raises:
  "lit ''client_id'' \<notin> fst ` set huge_request_no_client
   \<and> validate_params utf8_printer (init named_model) (PDict huge_request_no_client)
       = Inl ValueError
   \<and> handle utf8_printer (init named_model) (PDict huge_request_no_client)
       = Inr (ErrorResult (Str ValueError))
   \<and> handle utf8_printer (init named_model) (PDict huge_request_no_client)
       \<noteq> Inr (ErrorResult (Text ''Problem with parameters''))"
proof -
  have 1: "lit ''client_id'' \<notin> fst ` set huge_request_no_client"
    by (simp add: huge_request_no_client_def)
  have 2: "validate_params utf8_printer (init named_model) (PDict huge_request_no_client)
       = Inl ValueError"
    by (simp add: validate_params_print_raises prints_huge)
  then have 3: "handle utf8_printer (init named_model) (PDict huge_request_no_client)
       = Inr (ErrorResult (Str ValueError))"
    by (rule handle_validation_raises)
  from 1 2 3 show ?thesis by simp
qed

text \<open>
  C2, for requests whose prints succeed. For every request on which validation returns
  false, \<^verbatim>\<open>handle\<close> returns exactly \<^verbatim>\<open>{"Error": "Problem with parameters"}\<close>: in
  particular for every request whose print succeeds and that lacks the key \<^verbatim>\<open>client_id\<close>
  or the key \<^verbatim>\<open>model_params\<close>, and for every request whose print succeeds and whose
  \<^verbatim>\<open>model_params\<close> is empty when the schema is not (the empty dict printing as well). When
  the print of the request raises, \<^verbatim>\<open>handle\<close> returns the error object of that exception.
\<close>

theorem handle_validation_failure:
  "(validate_params pr h params = Inr False \<longrightarrow>
      handle pr h params = Inr (ErrorResult (Text ''Problem with parameters'')))
   \<and> (pr (PDict d) = None \<and>
        (lit ''client_id'' \<notin> fst ` set d \<or> lit ''model_params'' \<notin> fst ` set d) \<longrightarrow>
      handle pr h (PDict d) = Inr (ErrorResult (Text ''Problem with parameters'')))
   \<and> (pr (PDict d) = None \<and> pr (PDict []) = None \<and>
        map_of d (lit ''model_params'') = Some (PDict []) \<and> required_model_params h \<noteq> [] \<longrightarrow>
      handle pr h (PDict d) = Inr (ErrorResult (Text ''Problem with parameters'')))
   \<and> (pr params = Some e \<longrightarrow> handle pr h params = Inr (ErrorResult (Str e)))"
proof -
  have missing: "validate_params pr h (PDict d) = Inr False"
    if "pr (PDict d) = None \<and>
        (lit ''client_id'' \<notin> fst ` set d \<or> lit ''model_params'' \<notin> fst ` set d)"
    using that validate_params_unshaped [of pr d h] by (auto simp: key_has_value)
  have empty: "validate_params pr h (PDict d) = Inr False"
    if a: "pr (PDict d) = None \<and> pr (PDict []) = None \<and>
        map_of d (lit ''model_params'') = Some (PDict []) \<and> required_model_params h \<noteq> []"
  proof (cases "\<exists>c. map_of d (lit ''client_id'') = Some (PStr c)")
    case True
    then obtain c where c: "map_of d (lit ''client_id'') = Some (PStr c)" by blast
    have x: "extra_params (PDict []) (required_model_params h) = Inr []"
      by (simp add: extra_params_def)
    from a x have "check_required_model_params pr h (PDict []) =
        Inr (set (required_model_params h) \<subseteq> fst ` set [])"
      using check_required_model_params_printed [of pr "[]" h "[]"] by simp
    with a have "check_required_model_params pr h (PDict []) = Inr False"
      by simp
    with a c show ?thesis
      using validate_params_shaped [of pr d c "[]" h] by simp
  next
    case False
    with a show ?thesis
      using validate_params_unshaped [of pr d h] by simp
  qed
  have raised: "handle pr h params = Inr (ErrorResult (Str e))" if "pr params = Some e"
    using that by (simp add: handle_validation_raises validate_params_print_raises)
  from handle_not_valid [of pr h params] handle_not_valid [of pr h "PDict d"] missing empty raised
  show ?thesis by blast
qed

theorem handle_validation_failure_witness:
  "validate_params utf8_printer (init named_model) bad_request = Inr False
   \<and> handle utf8_printer (init named_model) bad_request
       = Inr (ErrorResult (Text ''Problem with parameters''))
   \<and> utf8_printer (PDict [(lit ''model_params'', PDict ab_params)]) = None
   \<and> lit ''client_id'' \<notin> fst ` set [(lit ''model_params'', PDict ab_params)]
   \<and> handle utf8_printer (init named_model) (PDict [(lit ''model_params'', PDict ab_params)])
       = Inr (ErrorResult (Text ''Problem with parameters''))
   \<and> utf8_printer (PDict [(lit ''client_id'', PStr (lit ''1''))]) = None
   \<and> lit ''model_params'' \<notin> fst ` set [(lit ''client_id'', PStr (lit ''1''))]
   \<and> handle utf8_printer (init named_model) (PDict [(lit ''client_id'', PStr (lit ''1''))])
       = Inr (ErrorResult (Text ''Problem with parameters''))
   \<and> utf8_printer (PDict [(lit ''client_id'', PStr (lit ''1'')), (lit ''model_params'', PDict [])])
       = None
   \<and> utf8_printer (PDict []) = None
   \<and> map_of [(lit ''client_id'', PStr (lit ''1'')), (lit ''model_params'', PDict [])]
        (lit ''model_params'') = Some (PDict [])
   \<and> required_model_params (init named_model) \<noteq> []
   \<and> handle utf8_printer (init named_model)
        (PDict [(lit ''client_id'', PStr (lit ''1'')), (lit ''model_params'', PDict [])])
       = Inr (ErrorResult (Text ''Problem with parameters''))
   \<and> utf8_printer (PDict huge_request) = Some ValueError
   \<and> handle utf8_printer (init named_model) (PDict huge_request)
       = Inr (ErrorResult (Str ValueError))"
proof -
  let ?h = "init named_model"
  let ?E = "Inr (ErrorResult (Text ''Problem with parameters''))"
  have pb: "utf8_printer (PDict [(lit ''client_id'', PInt 1), (lit ''model_params'', PNone)]) = None"
    by (simp add: utf8_printer_def below_digit_bound)
  have 1: "validate_params utf8_printer ?h bad_request = Inr False"
    unfolding bad_request_def
    using pb validate_params_unshaped
      [of utf8_printer "[(lit ''client_id'', PInt 1), (lit ''model_params'', PNone)]" ?h]
    by simp
  have p2: "utf8_printer (PDict [(lit ''model_params'', PDict ab_params)]) = None"
    by (simp add: utf8_printer_def ab_params_def below_digit_bound)
  have 2: "lit ''client_id'' \<notin> fst ` set [(lit ''model_params'', PDict ab_params)]"
    by simp
  have p3: "utf8_printer (PDict [(lit ''client_id'', PStr (lit ''1''))]) = None"
    by (simp add: utf8_printer_def)
  have 3: "lit ''model_params'' \<notin> fst ` set [(lit ''client_id'', PStr (lit ''1''))]"
    by simp
  have p4: "utf8_printer (PDict [(lit ''client_id'', PStr (lit ''1'')), (lit ''model_params'', PDict [])])
       = None"
    and p4': "utf8_printer (PDict []) = None"
    by (simp_all add: utf8_printer_def)
  have 4: "map_of [(lit ''client_id'', PStr (lit ''1'')), (lit ''model_params'', PDict [])]
        (lit ''model_params'') = Some (PDict [])"
    by simp
  have 5: "required_model_params ?h \<noteq> []"
    by (simp add: init_named_model)
  have p5: "utf8_printer (PDict huge_request) = Some ValueError"
    by (rule prints_huge)
  note t = handle_validation_failure
  from 1 t [of utf8_printer ?h bad_request "[]" ValueError]
  have 6: "handle utf8_printer ?h bad_request = ?E"
    by blast
  from p2 2 t [of utf8_printer ?h PNone "[(lit ''model_params'', PDict ab_params)]" ValueError]
  have 7: "handle utf8_printer ?h (PDict [(lit ''model_params'', PDict ab_params)]) = ?E"
    by blast
  from p3 3 t [of utf8_printer ?h PNone "[(lit ''client_id'', PStr (lit ''1''))]" ValueError]
  have 8: "handle utf8_printer ?h (PDict [(lit ''client_id'', PStr (lit ''1''))]) = ?E"
    by blast
  from p4 p4' 4 5 t [of utf8_printer ?h PNone
      "[(lit ''client_id'', PStr (lit ''1'')), (lit ''model_params'', PDict [])]" ValueError]
  have 9: "handle utf8_printer ?h
      (PDict [(lit ''client_id'', PStr (lit ''1'')), (lit ''model_params'', PDict [])]) = ?E"
    by blast
  from p5 t [of utf8_printer ?h "PDict huge_request" "[]" ValueError]
  have 10: "handle utf8_printer ?h (PDict huge_request) = Inr (ErrorResult (Str ValueError))"
    by blast
  from 1 6 p2 2 7 p3 3 8 p4 p4' 4 5 9 p5 10 show ?thesis by simp
qed

text \<open>
  C7, on a request whose \<^verbatim>\<open>client_id\<close> cannot be printed. The property "for every request
  that passes validation and on which inference raises no exception, \<^verbatim>\<open>handle\<close> returns an
  object with the request's \<^verbatim>\<open>client_id\<close> and the predicted rating" fails here: the
  request passes validation (inside the printed dict the surrogate is escaped) and the
  prediction on its parameters returns a rating, but line 146 prints the \<^verbatim>\<open>client_id\<close> as
  it is, which raises \<^verbatim>\<open>UnicodeEncodeError\<close> before the prediction is called, and \<^verbatim>\<open>handle\<close>
  returns the error object of that exception.
\<close>

theorem handle_client_id_print_raises:
  "validate_params utf8_printer (init named_model) (PDict surrogate_request) = Inr True
   \<and> py_getitem (PDict surrogate_request) (lit ''client_id'') = Inr (PStr [56448])
   \<and> py_getitem (PDict surrogate_request) (lit ''model_params'') = Inr (PDict ab_params)
   \<and> credit_rating_predict utf8_printer (init named_model) (PDict ab_params) = Inr (Float64 7)
   \<and> utf8_printer (PStr [56448]) = Some UnicodeEncodeError
   \<and> handle utf8_printer (init named_model) (PDict surrogate_request)
       = Inr (ErrorResult (Str UnicodeEncodeError))
   \<and> handle utf8_printer (init named_model) (PDict surrogate_request)
       \<noteq> Inr (PredictionResult (PStr [56448]) (Float64 7))"
proof -
  let ?h = "init named_model"
  have p: "utf8_printer (PDict surrogate_request) = None"
    by (simp add: utf8_printer_def surrogate_request_def ab_params_def below_digit_bound)
  have x: "extra_params (PDict ab_params) (required_model_params ?h) = Inr []"
    by (simp add: extra_params_def init_named_model ab_params_def)
  have "check_required_model_params utf8_printer ?h (PDict ab_params) = Inr True"
    using check_required_model_params_printed
      [of utf8_printer ab_params ?h "[]", OF prints_ab(1) x]
    by (simp add: init_named_model ab_params_def)
  moreover have "validate_params utf8_printer ?h (PDict surrogate_request)
      = check_required_model_params utf8_printer ?h (PDict ab_params)"
    using validate_params_shaped [of utf8_printer surrogate_request "[56448]" ab_params ?h] p
    by (simp add: surrogate_request_def)
  ultimately have 1: "validate_params utf8_printer ?h (PDict surrogate_request) = Inr True"
    by simp
  have 2: "py_getitem (PDict surrogate_request) (lit ''client_id'') = Inr (PStr [56448])"
    and 3: "py_getitem (PDict surrogate_request) (lit ''model_params'') = Inr (PDict ab_params)"
    by (simp_all add: surrogate_request_def)
  have 4: "utf8_printer (PStr [56448]) = Some UnicodeEncodeError"
    by (simp add: utf8_printer_def surrogate_def)
  have 5: "handle utf8_printer ?h (PDict surrogate_request)
       = Inr (ErrorResult (Str UnicodeEncodeError))"
    using 1 2 3 4 by (simp add: handle_def handle_try_def)
  from 1 2 3 4 5 credit_rating_predict_ab show ?thesis by simp
qed

text \<open>
  C7, for a request whose prints succeed. For every request that passes validation, whose
  \<^verbatim>\<open>client_id\<close> is printed without an exception, and on which inference raises no
  exception (the feature vector is assembled and printed, and the model returns its
  scores), \<^verbatim>\<open>handle\<close> returns the object whose \<^verbatim>\<open>client_id\<close> is the request's \<^verbatim>\<open>client_id\<close>
  and whose \<^verbatim>\<open>predicted_credit_rating\<close> is the first element of the model's prediction on
  the single-row batch of the feature vector, converted to a float.
\<close>

theorem handle_success:
  assumes "validate_params pr h params = Inr True"
    and "py_getitem params (lit ''client_id'') = Inr cid"
    and "py_getitem params (lit ''model_params'') = Inr mp"
    and "pr cid = None"
    and "input_data h mp = Inr row"
    and "pr (PList row) = None"
    and "predict (model h) [row] = Inr (y # ys)"
  shows "handle pr h params = Inr (PredictionResult cid (py_float y))"
proof -
  from assms(1) obtain d c mp' where "params = PDict d"
    and "map_of d (lit ''client_id'') = Some (PStr c)"
    and "map_of d (lit ''model_params'') = Some (PDict mp')"
    and "set (required_model_params h) \<subseteq> fst ` set mp'"
    and "pr (PDict d) = None"
    and "pr (PDict mp') = None"
    by (rule validate_params_True)
  with assms(3) have printed: "pr mp = None"
    by simp
  with assms(5,6,7) have "credit_rating_predict pr h mp = Inr y"
    by (simp add: credit_rating_predict_def)
  with assms(1,2,3,4) printed show ?thesis
    by (simp add: handle_def handle_try_def)
qed

theorem handle_success_witness:
  "validate_params utf8_printer (init named_model) (PDict ab_request) = Inr True
   \<and> py_getitem (PDict ab_request) (lit ''client_id'') = Inr (PStr (lit ''123''))
   \<and> py_getitem (PDict ab_request) (lit ''model_params'') = Inr (PDict ab_params)
   \<and> utf8_printer (PStr (lit ''123'')) = None
   \<and> input_data (init named_model) (PDict ab_params) = Inr [PInt 1, PInt 2]
   \<and> utf8_printer (PList [PInt 1, PInt 2]) = None
   \<and> predict (model (init named_model)) [[PInt 1, PInt 2]] = Inr [Float64 7]
   \<and> handle utf8_printer (init named_model) (PDict ab_request)
       = Inr (PredictionResult (PStr (lit ''123'')) (Float64 7))"
proof -
  have 2: "py_getitem (PDict ab_request) (lit ''client_id'') = Inr (PStr (lit ''123''))"
    by (simp add: ab_request_def)
  have 3: "py_getitem (PDict ab_request) (lit ''model_params'') = Inr (PDict ab_params)"
    by (simp add: ab_request_def)
  from handle_success [OF validated_ab 2 3 prints_ab(3) input_data_ab prints_ab(4) predict_named]
  have 6: "handle utf8_printer (init named_model) (PDict ab_request)
       = Inr (PredictionResult (PStr (lit ''123'')) (Float64 7))"
    by (simp add: py_float_def)
  from validated_ab 2 3 prints_ab(3) input_data_ab prints_ab(4) predict_named 6
  show ?thesis by simp
qed

text \<open>
  C9. When the model exposes feature names, so that the required names are the model's
  feature names, every lookup \<^verbatim>\<open>model_params[feature]\<close> made while the feature vector of a
  validated request is assembled succeeds: the assembly returns a vector and raises no
  \<^verbatim>\<open>KeyError\<close>.
\<close>

theorem validated_lookups_succeed:
  assumes "truthy (model_feature_names m)"
    and "validate_params pr (init m) params = Inr True"
  shows "\<exists>mp. py_getitem params (lit ''model_params'') = Inr (PDict mp)
      \<and> required_model_params (init m) = the (feature_names (init m))
      \<and> (\<forall>feature \<in> set (the (feature_names (init m))).
            \<exists>v. py_getitem (PDict mp) feature = Inr v)
      \<and> (\<exists>row. input_data (init m) (PDict mp) = Inr row)
      \<and> (\<forall>k. input_data (init m) (PDict mp) \<noteq> Inl (KeyError k))"
proof -
  from assms(2) obtain d c mp where d: "params = PDict d"
    and "map_of d (lit ''client_id'') = Some (PStr c)"
    and mp: "map_of d (lit ''model_params'') = Some (PDict mp)"
    and req: "set (required_model_params (init m)) \<subseteq> fst ` set mp"
    and "pr (PDict d) = None"
    and "pr (PDict mp) = None"
    by (rule validate_params_True)
  from assms(1) have fn: "feature_names (init m) = model_feature_names m"
    and rq: "required_model_params (init m) = the (model_feature_names m)"
    by (simp_all add: init_def Let_def)
  from req rq have sub: "set (the (model_feature_names m)) \<subseteq> fst ` set mp"
    by simp
  have look: "\<forall>feature \<in> set (the (feature_names (init m))).
      \<exists>v. py_getitem (PDict mp) feature = Inr v"
  proof
    fix feature
    assume "feature \<in> set (the (feature_names (init m)))"
    with sub fn have "feature \<in> fst ` set mp" by auto
    then obtain v where "map_of mp feature = Some v"
      by (auto simp: key_has_value)
    then show "\<exists>v. py_getitem (PDict mp) feature = Inr v" by simp
  qed
  have row: "input_data (init m) (PDict mp)
      = Inr (map (\<lambda>f. the (map_of mp f)) (the (model_feature_names m)))"
    using assms(1) fn sub by (simp add: input_data_def lookup_each_dict)
  from d mp fn rq look row show ?thesis by simp
qed

theorem validated_lookups_succeed_witness:
  "truthy (model_feature_names named_model)
   \<and> validate_params utf8_printer (init named_model) (PDict ab_request) = Inr True
   \<and> py_getitem (PDict ab_request) (lit ''model_params'') = Inr (PDict ab_params)
   \<and> py_getitem (PDict ab_params) (lit ''a'') = Inr (PInt 1)
   \<and> py_getitem (PDict ab_params) (lit ''b'') = Inr (PInt 2)
   \<and> (\<exists>row. input_data (init named_model) (PDict ab_params) = Inr row)"
proof -
  have 1: "truthy (model_feature_names named_model)"
    by (simp add: named_model_def)
  have 3: "py_getitem (PDict ab_request) (lit ''model_params'') = Inr (PDict ab_params)"
    by (simp add: ab_request_def)
  have 4: "py_getitem (PDict ab_params) (lit ''a'') = Inr (PInt 1)"
    and 5: "py_getitem (PDict ab_params) (lit ''b'') = Inr (PInt 2)"
    by (simp_all add: ab_params_def)
  from validated_lookups_succeed [OF 1 validated_ab] 3
  have 6: "\<exists>row. input_data (init named_model) (PDict ab_params) = Inr row"
    by auto
  from 1 validated_ab 3 4 5 6 show ?thesis by simp
qed

section \<open>Exceptions never leave \<^verbatim>\<open>handle\<close>\<close>





section \<open>Extra feature keys\<close>

text \<open>
  C8, for a model that records no feature names. The property "for every request that
  passes validation and every set of additional entries whose keys are not in the required
  feature schema, \<^verbatim>\<open>handle\<close> returns the same output with and without the additional
  entries in \<^verbatim>\<open>model_params\<close>; the extra keys influence neither validation nor the assembled
  feature vector nor the prediction" fails here: the fallback branch of
  \<^verbatim>\<open>credit_rating_predict\<close> takes every value of \<^verbatim>\<open>model_params\<close>, so the value of the extra
  entry \<^verbatim>\<open>days\<close> is a seventh element of the feature vector, whatever the model is; this
  six-feature model rejects the longer row and \<^verbatim>\<open>handle\<close> returns an error object instead
  of the prediction.
\<close>

theorem extra_keys_reach_unnamed_model:
  "validate_params utf8_printer (init unnamed_model) six_request = Inr True
   \<and> lit ''days'' \<notin> set (required_model_params (init unnamed_model))
   \<and> validate_params utf8_printer (init unnamed_model) six_request_extra = Inr True
   \<and> input_data (init unnamed_model) (PDict six_params)
       = Inr [PInt 1, PInt 0, PInt 1, PInt 0, PInt 50, PInt 288]
   \<and> input_data (init unnamed_model) (PDict (dict_update six_params [(lit ''days'', PInt 245)]))
       = Inr [PInt 1, PInt 0, PInt 1, PInt 0, PInt 50, PInt 288, PInt 245]
   \<and> handle utf8_printer (init unnamed_model) six_request
       = Inr (PredictionResult (PStr (lit ''123'')) (Float64 1))
   \<and> handle utf8_printer (init unnamed_model) six_request_extra
       = Inr (ErrorResult (Str (Raised ''wrong number of features'')))
   \<and> handle utf8_printer (init unnamed_model) six_request_extra
       \<noteq> handle utf8_printer (init unnamed_model) six_request"
proof -
  let ?h = "init unnamed_model"
  let ?seven = "six_params @ [(lit ''days'', PInt 245)]"
  have 2: "lit ''days'' \<notin> set (required_model_params ?h)"
    by (simp add: init_unnamed_model default_required_model_params_def)
  have pc: "utf8_printer (PStr (lit ''123'')) = None"
    by (rule prints_ab)
  have i6: "input_data ?h (PDict six_params)
       = Inr [PInt 1, PInt 0, PInt 1, PInt 0, PInt 50, PInt 288]"
    by (simp add: input_data_def init_unnamed_model six_params_def)
  have i7: "input_data ?h (PDict ?seven)
       = Inr [PInt 1, PInt 0, PInt 1, PInt 0, PInt 50, PInt 288, PInt 245]"
    by (simp add: input_data_def init_unnamed_model six_params_def)
  have m: "model ?h = unnamed_model"
    by (simp add: init_unnamed_model)
  have p: "credit_rating_predict utf8_printer ?h (PDict six_params) = Inr (Float64 1)"
    using prints_six(1,4) i6 m by (simp add: credit_rating_predict_def unnamed_model_def)
  have q: "credit_rating_predict utf8_printer ?h (PDict ?seven)
      = Inl (Raised ''wrong number of features'')"
    using prints_six(2,5) i7 m by (simp add: credit_rating_predict_def unnamed_model_def)
  have 4: "handle utf8_printer ?h six_request
       = Inr (PredictionResult (PStr (lit ''123'')) (Float64 1))"
    using validated_six p pc prints_six(1)
    by (simp add: handle_def handle_try_def six_request_def py_float_def)
  have 5: "handle utf8_printer ?h six_request_extra
       = Inr (ErrorResult (Str (Raised ''wrong number of features'')))"
    using validated_six_extra q pc prints_six(2) unfolding six_request_extra_eq
    by (simp add: handle_def handle_try_def)
  from i7 have i7': "input_data ?h (PDict (dict_update six_params [(lit ''days'', PInt 245)]))
       = Inr [PInt 1, PInt 0, PInt 1, PInt 0, PInt 50, PInt 288, PInt 245]"
    unfolding six_params_extra .
  from validated_six 2 validated_six_extra i6 i7' 4 5 show ?thesis by simp
qed

text \<open>
  C8, with the prints and the two kinds of model told apart. Take a request that passes
  validation and additional entries whose keys are not in the required feature schema,
  assigned into \<^verbatim>\<open>model_params\<close>, such that validating the extended request raises no
  exception (its prints succeed). Then the extended request passes validation too. When
  the model exposes feature names, the extended request gives the same feature vector and
  \<^verbatim>\<open>handle\<close> returns the same output on both requests: the extra keys are unused. When the
  model exposes no feature names, the feature vector of the extended request is all the
  values of its \<^verbatim>\<open>model_params\<close> in iteration order, extra values included: an entry under
  a new key adds its value at the end of the vector, and it is on the batch of this one
  row that the model's \<^verbatim>\<open>predict\<close> is called.
\<close>

theorem extra_keys_unused_with_feature_names:
  assumes "validate_params pr (init m) (PDict d) = Inr True"
    and "map_of d (lit ''model_params'') = Some (PDict mp)"
    and "\<forall>k \<in> fst ` set extra. k \<notin> set (required_model_params (init m))"
    and "validate_params pr (init m)
           (PDict (dict_set d (lit ''model_params'') (PDict (dict_update mp extra)))) = Inr b"
  shows "b = True
      \<and> (truthy (model_feature_names m) \<longrightarrow>
           input_data (init m) (PDict (dict_update mp extra)) = input_data (init m) (PDict mp)
         \<and> handle pr (init m)
             (PDict (dict_set d (lit ''model_params'') (PDict (dict_update mp extra))))
           = handle pr (init m) (PDict d))
      \<and> (\<not> truthy (model_feature_names m) \<longrightarrow>
           input_data (init m) (PDict (dict_update mp extra))
             = Inr (map snd (dict_update mp extra))
         \<and> (\<forall>k v. extra = [(k, v)] \<and> k \<notin> fst ` set mp \<longrightarrow>
               input_data (init m) (PDict (dict_update mp extra))
                 = Inr (map snd mp @ [v]))
         \<and> credit_rating_predict pr (init m) (PDict (dict_update mp extra))
             = (case pr (PList (map snd (dict_update mp extra))) of
                  Some e \<Rightarrow> Inl e
                | None \<Rightarrow>
                    (case predict m [map snd (dict_update mp extra)] of
                       Inl e \<Rightarrow> Inl e
                     | Inr out \<Rightarrow> first_output out)))"
proof -
  let ?mp' = "dict_update mp extra"
  let ?d' = "dict_set d (lit ''model_params'') (PDict ?mp')"
  let ?h = "init m"
  from assms(1) obtain d0 c mp0 where "PDict d = PDict d0"
    and "map_of d0 (lit ''client_id'') = Some (PStr c)"
    and "map_of d0 (lit ''model_params'') = Some (PDict mp0)"
    and "set (required_model_params ?h) \<subseteq> fst ` set mp0"
    and "pr (PDict d0) = None"
    and "pr (PDict mp0) = None"
    by (rule validate_params_True)
  with assms(2) have c: "map_of d (lit ''client_id'') = Some (PStr c)"
    and req: "set (required_model_params ?h) \<subseteq> fst ` set mp"
    and pmp: "pr (PDict mp) = None"
    by simp_all
  have c': "map_of ?d' (lit ''client_id'') = Some (PStr c)"
    and mp': "map_of ?d' (lit ''model_params'') = Some (PDict ?mp')"
    using c by (simp_all add: map_of_dict_set)
  from assms(4) have pd': "pr (PDict ?d') = None"
    by (auto simp: validate_params_def dest: check_required_query_params_returns
        split: sum.splits if_splits)
  from pd' c' mp' have v': "validate_params pr ?h (PDict ?d')
      = check_required_model_params pr ?h (PDict ?mp')"
    by (rule validate_params_shaped)
  with assms(4) have chk: "check_required_model_params pr ?h (PDict ?mp') = Inr b"
    by simp
  then have "b = (set (required_model_params ?h) \<subseteq> fst ` set ?mp')"
    and pmp': "pr (PDict ?mp') = None"
    using check_required_model_params_returns by blast+
  with req have b: "b = True"
    by (auto simp: keys_dict_update)
  have named: "input_data ?h (PDict ?mp') = input_data ?h (PDict mp)
      \<and> handle pr ?h (PDict ?d') = handle pr ?h (PDict d)"
    if t: "truthy (model_feature_names m)"
  proof -
    have same: "\<forall>f \<in> set (the (model_feature_names m)). map_of ?mp' f = map_of mp f"
    proof
      fix f
      assume "f \<in> set (the (model_feature_names m))"
      with t assms(3) have "f \<notin> fst ` set extra"
        by (auto simp: init_truthy)
      then show "map_of ?mp' f = map_of mp f"
        by (rule map_of_dict_update)
    qed
    have row: "input_data ?h (PDict ?mp') = input_data ?h (PDict mp)"
      using t lookup_each_cong [OF same]
      by (simp add: input_data_def init_truthy)
    with pmp pmp' have p: "credit_rating_predict pr ?h (PDict ?mp')
        = credit_rating_predict pr ?h (PDict mp)"
      by (simp add: credit_rating_predict_def)
    have "handle pr ?h (PDict ?d') = handle pr ?h (PDict d)"
      using assms(1,2,4) b c c' mp' p pmp pmp'
      by (cases "pr (PStr c)") (simp_all add: handle_def handle_try_def)
    with row show ?thesis by simp
  qed
  have unnamed: "input_data ?h (PDict ?mp') = Inr (map snd ?mp')
      \<and> (\<forall>k v. extra = [(k, v)] \<and> k \<notin> fst ` set mp \<longrightarrow>
            input_data ?h (PDict ?mp') = Inr (map snd mp @ [v]))
      \<and> credit_rating_predict pr ?h (PDict ?mp')
          = (case pr (PList (map snd ?mp')) of
               Some e \<Rightarrow> Inl e
             | None \<Rightarrow>
                 (case predict m [map snd ?mp'] of
                    Inl e \<Rightarrow> Inl e
                  | Inr out \<Rightarrow> first_output out))"
    if f: "\<not> truthy (model_feature_names m)"
  proof -
    from f have "\<not> truthy (feature_names ?h)" and md: "model ?h = m"
      by (simp_all add: init_def Let_def)
    then have row: "input_data ?h (PDict ?mp') = Inr (map snd ?mp')"
      by (simp add: input_data_def)
    then have new: "\<forall>k v. extra = [(k, v)] \<and> k \<notin> fst ` set mp \<longrightarrow>
        input_data ?h (PDict ?mp') = Inr (map snd mp @ [v])"
      by (auto simp: dict_set_new_key)
    from row md pmp' have "credit_rating_predict pr ?h (PDict ?mp')
        = (case pr (PList (map snd ?mp')) of
             Some e \<Rightarrow> Inl e
           | None \<Rightarrow>
               (case predict m [map snd ?mp'] of
                  Inl e \<Rightarrow> Inl e
                | Inr out \<Rightarrow> first_output out))"
      by (simp add: credit_rating_predict_def py_print_def split: option.splits)
    with row new show ?thesis by blast
  qed
  from b named unnamed show ?thesis by blast
qed

theorem extra_keys_unused_with_feature_names_witness:
  "validate_params utf8_printer (init named_model) (PDict ab_request) = Inr True
   \<and> map_of ab_request (lit ''model_params'') = Some (PDict ab_params)
   \<and> lit ''c'' \<notin> set (required_model_params (init named_model))
   \<and> dict_set ab_request (lit ''model_params'')
        (PDict (dict_update ab_params [(lit ''c'', PInt 3)]))
       = [(lit ''client_id'', PStr (lit ''123'')),
          (lit ''model_params'', PDict [(lit ''b'', PInt 2), (lit ''a'', PInt 1), (lit ''c'', PInt 3)])]
   \<and> validate_params utf8_printer (init named_model)
        (PDict [(lit ''client_id'', PStr (lit ''123'')),
                (lit ''model_params'',
                 PDict [(lit ''b'', PInt 2), (lit ''a'', PInt 1), (lit ''c'', PInt 3)])])
       = Inr True
   \<and> truthy (model_feature_names named_model)
   \<and> handle utf8_printer (init named_model)
        (PDict [(lit ''client_id'', PStr (lit ''123'')),
                (lit ''model_params'',
                 PDict [(lit ''b'', PInt 2), (lit ''a'', PInt 1), (lit ''c'', PInt 3)])])
       = handle utf8_printer (init named_model) (PDict ab_request)
   \<and> validate_params utf8_printer (init unnamed_model) six_request = Inr True
   \<and> validate_params utf8_printer (init unnamed_model) six_request_extra = Inr True
   \<and> \<not> truthy (model_feature_names unnamed_model)
   \<and> lit ''days'' \<notin> fst ` set six_params
   \<and> input_data (init unnamed_model) (PDict (dict_update six_params [(lit ''days'', PInt 245)]))
       = Inr (map snd six_params @ [PInt 245])"
proof -
  let ?h = "init named_model"
  let ?abc = "[(lit ''b'', PInt 2), (lit ''a'', PInt 1), (lit ''c'', PInt 3)]"
  let ?d' = "[(lit ''client_id'', PStr (lit ''123'')), (lit ''model_params'', PDict ?abc)]"
  have 1: "truthy (model_feature_names named_model)"
    by (simp add: named_model_def)
  have 3: "map_of ab_request (lit ''model_params'') = Some (PDict ab_params)"
    by (simp add: ab_request_def)
  have 4: "lit ''c'' \<notin> set (required_model_params ?h)"
    by (simp add: init_named_model)
  then have 5: "\<forall>k \<in> fst ` set [(lit ''c'', PInt 3)]. k \<notin> set (required_model_params ?h)"
    by simp
  have 6: "dict_set ab_request (lit ''model_params'')
      (PDict (dict_update ab_params [(lit ''c'', PInt 3)])) = ?d'"
    by (simp add: dict_set_def ab_request_def ab_params_def)
  have p: "utf8_printer (PDict ?abc) = None" "utf8_printer (PDict ?d') = None"
    "utf8_printer (PList [PStr (lit ''c'')]) = None"
    by (simp_all add: utf8_printer_def below_digit_bound)
  have x: "extra_params (PDict ?abc) (required_model_params ?h) = Inr [PStr (lit ''c'')]"
    by (simp add: extra_params_def init_named_model)
  have "check_required_model_params utf8_printer ?h (PDict ?abc) = Inr True"
    using check_required_model_params_printed
      [of utf8_printer ?abc ?h "[PStr (lit ''c'')]", OF p(1) x] p(3)
    by (simp add: init_named_model)
  moreover have "validate_params utf8_printer ?h (PDict ?d')
      = check_required_model_params utf8_printer ?h (PDict ?abc)"
    using validate_params_shaped [of utf8_printer ?d' "lit ''123''" ?abc ?h] p(2)
    by simp
  ultimately have 7: "validate_params utf8_printer ?h (PDict ?d') = Inr True"
    by simp
  note t = extra_keys_unused_with_feature_names
  from t [OF validated_ab 3 5, unfolded 6, OF 7] 1
  have 8: "handle utf8_printer ?h (PDict ?d') = handle utf8_printer ?h (PDict ab_request)"
    by blast
  have u: "\<not> truthy (model_feature_names unnamed_model)"
    by (simp add: unnamed_model_def)
  have k: "lit ''days'' \<notin> fst ` set six_params"
    by (simp add: six_params_def)
  have r: "required_model_params (init unnamed_model) = default_required_model_params"
    by (simp add: init_unnamed_model)
  have e: "\<forall>k \<in> fst ` set [(lit ''days'', PInt 245)].
      k \<notin> set (required_model_params (init unnamed_model))"
    by (simp add: r default_required_model_params_def)
  note v6 = validated_six and v7 = validated_six_extra
  have s: "map_of [(lit ''client_id'', PStr (lit ''123'')), (lit ''model_params'', PDict six_params)]
      (lit ''model_params'') = Some (PDict six_params)"
    by simp
  have s': "PDict (dict_set [(lit ''client_id'', PStr (lit ''123'')),
        (lit ''model_params'', PDict six_params)] (lit ''model_params'')
      (PDict (dict_update six_params [(lit ''days'', PInt 245)]))) = six_request_extra"
    by (simp add: dict_set_def six_request_extra_def)
  from t [OF v6 [unfolded six_request_def] s e, unfolded s', OF v7] u k
  have 9: "input_data (init unnamed_model)
      (PDict (dict_update six_params [(lit ''days'', PInt 245)]))
       = Inr (map snd six_params @ [PInt 245])"
    by blast
  from validated_ab 3 4 6 7 1 8 v6 v7 u k 9 show ?thesis by simp
qed

end
